theory Spec2Isabelle
  imports Complex_Main "HOL-Library.Multiset"
begin

section \<open>Values of the feed and cells of the data frame\<close>

text \<open>
  The application (\<^verbatim>\<open>streamlit_app.py\<close>) reads earthquake events from a feed, builds a
  data frame, filters it to Puerto Rico, and renders a summary, a table, two histograms
  and a map.

  A numeric cell of the data frame is a \<open>float64\<close>: a number or \<open>NaN\<close>. It is modelled as
  \<open>real option\<close>, \<open>None\<close> being \<open>NaN\<close>. Finite floats are read as the real numbers they
  denote and a decimal literal of the source as the decimal number it writes; the
  infinities are left out (a JSON feed cannot carry them).
\<close>

type_synonym cell = "real option"

text \<open>
  A Python value as the feed may hand it over, or as \<open>clasificacion_richter\<close> may receive
  it: \<open>None\<close>, the float \<open>NaN\<close>, a number (also a value that \<open>float\<close> and
  \<open>pd.to_numeric\<close> read as that number), or any other object, on which \<open>pd.isna\<close> is
  false, \<open>float\<close> raises and \<open>pd.to_numeric\<close> fails.
\<close>

datatype pyval = PyNone | PyNaN | PyFloat real | PyOther

datatype error = ValueError

definition pd_isna :: "pyval \<Rightarrow> bool" where
  "pd_isna v = (v = PyNone \<or> v = PyNaN)"

fun float_py :: "pyval \<Rightarrow> error + cell" where
  "float_py (PyFloat x) = Inr (Some x)"
| "float_py PyNaN = Inr None"
| "float_py PyNone = Inl ValueError"
| "float_py PyOther = Inl ValueError"

text \<open>\<open>pd.to_numeric(..., errors="coerce")\<close> on one cell: what cannot be read is \<open>NaN\<close>.\<close>

fun to_numeric :: "pyval \<Rightarrow> cell" where
  "to_numeric (PyFloat x) = Some x"
| "to_numeric PyNaN = None"
| "to_numeric PyNone = None"
| "to_numeric PyOther = None"

text \<open>A cell of a float column as the value \<open>Series.apply\<close> passes to a function.\<close>

fun py_of_cell :: "cell \<Rightarrow> pyval" where
  "py_of_cell None = PyNaN"
| "py_of_cell (Some x) = PyFloat x"

section \<open>Classification\<close>

definition epico :: string where
  "epico = CHR 0xE9 # ''pico''"

text \<open>
  \<open>clasificacion_richter\<close>: the chain of \<open>if\<close>s in the order of the source; a value that
  passes no test reaches the final \<open>return "legendario"\<close>. A comparison with \<open>NaN\<close> is
  false, so a \<open>NaN\<close> that reached the chain would fall through it as well (it cannot: the
  first test returns on it).
\<close>

definition richter_de_float :: "real \<Rightarrow> string" where
  "richter_de_float m =
     (if m < 2 then ''micro''
      else if 2 \<le> m \<and> m \<le> 3.9 then ''menor''
      else if 4 \<le> m \<and> m \<le> 4.9 then ''ligero''
      else if 5 \<le> m \<and> m \<le> 5.9 then ''moderado''
      else if 6 \<le> m \<and> m \<le> 6.9 then ''fuerte''
      else if 7 \<le> m \<and> m \<le> 7.9 then ''mayor''
      else if 8 \<le> m \<and> m \<le> 9.9 then epico
      else ''legendario'')"

definition clasificacion_richter :: "pyval \<Rightarrow> string" where
  "clasificacion_richter mag =
     (if mag = PyNone \<or> pd_isna mag then ''desconocida''
      else case float_py mag of
             Inl _ \<Rightarrow> ''desconocida''
           | Inr None \<Rightarrow> ''legendario''
           | Inr (Some m) \<Rightarrow> richter_de_float m)"

definition niveles :: "string set" where
  "niveles = {''micro'', ''menor'', ''ligero'', ''moderado'', ''fuerte'', ''mayor'',
              epico, ''legendario'', ''desconocida''}"

section \<open>Dates\<close>

text \<open>
  A Python \<open>datetime\<close>: \<open>wall\<close> is its wall-clock reading, in microseconds from
  1970-01-01 00:00:00 of the same clock, and \<open>utcoffset\<close> its \<open>tzinfo\<close> (\<open>None\<close> for a naive
  datetime, else the offset from UTC in microseconds). \<open>replace(tzinfo=utc)\<close> keeps the
  reading; \<open>astimezone(utc)\<close> keeps the instant, which is the reading minus the offset.
\<close>

record datetime =
  wall :: int
  utcoffset :: "int option"

text \<open>An element of \<open>feed.event_times\<close>: a datetime, or anything else.\<close>

datatype time_val = Datetime datetime | NoDatetime

text \<open>\<open>_to_utc\<close>, local to \<open>generaTabla\<close>; \<open>None\<close> is \<open>pd.NaT\<close>.\<close>

definition to_utc :: "time_val \<Rightarrow> datetime option" where
  "to_utc x =
     (case x of
        Datetime d \<Rightarrow>
          (case utcoffset d of
             None \<Rightarrow> Some (d\<lparr>utcoffset := Some 0\<rparr>)
           | Some off \<Rightarrow> Some \<lparr>wall = wall d - off, utcoffset = Some 0\<rparr>)
      | NoDatetime \<Rightarrow> None)"

text \<open>The calendar date (year, month, day) of a day count from 1970-01-01.\<close>

definition civil_de_dias :: "int \<Rightarrow> int \<times> int \<times> int" where
  "civil_de_dias dias =
     (let z = dias + 719468;
          era = z div 146097;
          doe = z - era * 146097;
          yoe = (doe - doe div 1460 + doe div 36524 - doe div 146096) div 365;
          y = yoe + era * 400;
          doy = doe - (365 * yoe + yoe div 4 - yoe div 100);
          mp = (5 * doy + 2) div 153;
          d = doy - (153 * mp + 2) div 5 + 1;
          m = (if mp < 10 then mp + 3 else mp - 9)
      in (if m \<le> 2 then y + 1 else y, m, d))"

definition dt_year :: "datetime \<Rightarrow> int" where
  "dt_year d = fst (civil_de_dias (wall d div 86400000000))"

definition dt_month :: "datetime \<Rightarrow> int" where
  "dt_month d = fst (snd (civil_de_dias (wall d div 86400000000)))"

definition dt_day :: "datetime \<Rightarrow> int" where
  "dt_day d = snd (snd (civil_de_dias (wall d div 86400000000)))"

fun str_nat :: "nat \<Rightarrow> string" where
  "str_nat n =
     (if n < 10 then [char_of (48 + n)]
      else str_nat (n div 10) @ [char_of (48 + n mod 10)])"

definition str_int :: "int \<Rightarrow> string" where
  "str_int i = (if i < 0 then CHR ''-'' # str_nat (nat (- i)) else str_nat (nat i))"

definition MESES_ES :: "int \<rightharpoonup> string" where
  "MESES_ES = map_of
     [(1, ''Enero''), (2, ''Febrero''), (3, ''Marzo''), (4, ''Abril''), (5, ''Mayo''),
      (6, ''Junio''), (7, ''Julio''), (8, ''Agosto''), (9, ''Septiembre''),
      (10, ''Octubre''), (11, ''Noviembre''), (12, ''Diciembre'')]"

definition fecha_es_sola :: "datetime option \<Rightarrow> string" where
  "fecha_es_sola dt_utc =
     (case dt_utc of
        None \<Rightarrow> []
      | Some d \<Rightarrow>
          str_int (dt_day d) @ '' de ''
          @ (case MESES_ES (dt_month d) of Some mes \<Rightarrow> mes | None \<Rightarrow> str_int (dt_month d))
          @ '' de '' @ str_int (dt_year d))"

section \<open>The data frame\<close>

text \<open>
  One event of the feed: the entries at one index of the feed's parallel sequences
  (\<open>event_times\<close>, \<open>location\<close>, \<open>places\<close>, \<open>magnitudes\<close>, \<open>depths\<close>).
\<close>

record evento =
  ev_time :: time_val
  ev_lon :: pyval
  ev_lat :: pyval
  ev_place :: string
  ev_mag :: pyval
  ev_depth :: pyval

text \<open>A row of the data frame that \<open>generaTabla\<close> returns, one field per column.\<close>

record fila =
  time :: time_val
  lon :: cell
  lat :: cell
  localizacion :: string
  magnitud :: cell
  profundidad :: cell
  magnitud_size :: cell
  time_utc :: "datetime option"
  fecha :: string
  clasificacion :: string

text \<open>\<open>Series.clip\<close>, \<open>Series.fillna\<close> and \<open>Series.between(inclusive="both")\<close> on one cell.
  \<open>NaN\<close> stays \<open>NaN\<close> under \<open>clip\<close> and is in no interval.\<close>

definition clip_lower :: "real \<Rightarrow> cell \<Rightarrow> cell" where
  "clip_lower lo c = map_option (max lo) c"

definition clip :: "real \<Rightarrow> real \<Rightarrow> cell \<Rightarrow> cell" where
  "clip lo hi c = map_option (\<lambda>x. min hi (max lo x)) c"

definition fillna :: "real \<Rightarrow> cell \<Rightarrow> cell" where
  "fillna v c = (case c of None \<Rightarrow> Some v | Some x \<Rightarrow> Some x)"

definition between :: "cell \<Rightarrow> real \<Rightarrow> real \<Rightarrow> bool" where
  "between c lo hi = (case c of None \<Rightarrow> False | Some x \<Rightarrow> lo \<le> x \<and> x \<le> hi)"

text \<open>The column \<open>magnitud_size\<close> from the column \<open>magnitud\<close> (lines 130 to 133).\<close>

definition magnitud_size_col :: "cell list \<Rightarrow> cell list" where
  "magnitud_size_col mags =
     (let s = map (\<lambda>c. fillna 0 (clip_lower 0 c)) mags
      in if list_all (\<lambda>c. c = Some 0) s then map (\<lambda>_. Some 0.1) s else s)"

text \<open>
  \<open>DataFrame.sort_values(by, ascending=False, na_position="last")\<close> with the default
  \<open>kind="quicksort"\<close>, as pandas' \<open>nargsort\<close> does it: the rows with a key are taken in
  reverse order, sorted ascending by the library's sort, and reversed again; the rows
  without a key follow in their original order. The library's sort is the parameter
  \<open>argsort\<close>: pandas documents \<open>quicksort\<close> as not stable, so all that is known of it is
  \<open>sorts_by_key\<close>: the result is a rearrangement of the argument, ascending by key.
\<close>

definition sort_values_desc ::
    "(('k \<times> 'a) list \<Rightarrow> ('k \<times> 'a) list) \<Rightarrow> ('a \<Rightarrow> 'k option) \<Rightarrow> 'a list \<Rightarrow> 'a list" where
  "sort_values_desc argsort key df =
     (let non_nans = rev (map (\<lambda>r. (the (key r), r)) (filter (\<lambda>r. key r \<noteq> None) df));
          nans = filter (\<lambda>r. key r = None) df
      in rev (map snd (argsort non_nans)) @ nans)"

definition sorts_by_key :: "(('k::linorder \<times> 'a) list \<Rightarrow> ('k \<times> 'a) list) \<Rightarrow> bool" where
  "sorts_by_key argsort =
     (\<forall>xs. mset (argsort xs) = mset xs \<and> sorted (map fst (argsort xs)))"

definition fila_de :: "evento \<Rightarrow> cell \<Rightarrow> fila" where
  "fila_de e s =
     (let m = to_numeric (ev_mag e); t = to_utc (ev_time e)
      in \<lparr>time = ev_time e,
          lon = to_numeric (ev_lon e),
          lat = to_numeric (ev_lat e),
          localizacion = ev_place e,
          magnitud = m,
          profundidad = to_numeric (ev_depth e),
          magnitud_size = s,
          time_utc = t,
          fecha = fecha_es_sola t,
          clasificacion = clasificacion_richter (py_of_cell m)\<rparr>)"

text \<open>The data frame before the final sort: one row per event.\<close>

definition tabla_sin_ordenar :: "evento list \<Rightarrow> fila list" where
  "tabla_sin_ordenar feed =
     map (\<lambda>(e, s). fila_de e s)
       (zip feed (magnitud_size_col (map (\<lambda>e. to_numeric (ev_mag e)) feed)))"

definition clave_time_utc :: "fila \<Rightarrow> int option" where
  "clave_time_utc r = map_option wall (time_utc r)"

text \<open>
  \<open>generaTabla\<close>. \<open>QuakeFeed\<close> is the feed client: the events for a severity and a
  period.
\<close>

definition generaTabla ::
    "((int \<times> fila) list \<Rightarrow> (int \<times> fila) list) \<Rightarrow> (string \<Rightarrow> string \<Rightarrow> evento list) \<Rightarrow>
     string \<Rightarrow> string \<Rightarrow> fila list" where
  "generaTabla argsort QuakeFeed severidad periodo =
     (let feed = QuakeFeed severidad periodo;
          df = tabla_sin_ordenar feed
      in sort_values_desc argsort clave_time_utc df)"

section \<open>Filter by zone\<close>

record bbox =
  lat_min :: real
  lat_max :: real
  lon_min :: real
  lon_max :: real

definition PR_BBOX :: bbox where
  "PR_BBOX = \<lparr>lat_min = 17.6, lat_max = 18.7, lon_min = -67.8, lon_max = -64.8\<rparr>"

definition en_PR :: "'a fila_scheme \<Rightarrow> bool" where
  "en_PR r = (between (lat r) (lat_min PR_BBOX) (lat_max PR_BBOX)
              \<and> between (lon r) (lon_min PR_BBOX) (lon_max PR_BBOX))"

definition filtrar_puerto_rico :: "'a fila_scheme list \<Rightarrow> 'a fila_scheme list" where
  "filtrar_puerto_rico df = (if df = [] then df else filter en_PR df)"

datatype zona = Puerto_Rico | Mundo

definition filtro_zona :: "zona \<Rightarrow> fila list \<Rightarrow> fila list" where
  "filtro_zona z df = (if z = Puerto_Rico then filtrar_puerto_rico df else df)"

section \<open>The page\<close>

text \<open>
  The controls of the sidebar. A select box returns one of its options, so the labels
  are datatypes; \<open>sev_map\<close> and \<open>periodo_map\<close> give the names the feed client takes. The
  slider returns a number from 5 to 20.
\<close>

datatype sev_label = Todos | Significativo | Sev_4_5 | Sev_2_5 | Sev_1_0

datatype periodo_label = Mes | Semana | Dia

fun sev_map :: "sev_label \<Rightarrow> string" where
  "sev_map Todos = ''all''"
| "sev_map Significativo = ''significant''"
| "sev_map Sev_4_5 = ''4.5''"
| "sev_map Sev_2_5 = ''2.5''"
| "sev_map Sev_1_0 = ''1.0''"

fun periodo_map :: "periodo_label \<Rightarrow> string" where
  "periodo_map Mes = ''month''"
| "periodo_map Semana = ''week''"
| "periodo_map Dia = ''day''"

record controles =
  sev :: sev_label
  periodo :: periodo_label
  zona_sel :: zona
  mostrar_mapa :: bool
  mostrar_tabla :: bool
  slider :: nat

definition n_eventos_tabla :: "controles \<Rightarrow> nat" where
  "n_eventos_tabla c = (if mostrar_tabla c then slider c else 5)"

text \<open>The column \<open>magnitud_color\<close> (lines 308 to 312).\<close>

record fila_color = fila +
  magnitud_color :: cell

definition rango_fijo :: "zona \<Rightarrow> sev_label \<Rightarrow> periodo_label \<Rightarrow> bool" where
  "rango_fijo z s p = (z = Puerto_Rico \<and> s = Todos \<and> p = Mes)"

definition ajuste_color :: "bool \<Rightarrow> fila list \<Rightarrow> fila_color list" where
  "ajuste_color rf df =
     (let df1 = map (\<lambda>r. fila.extend r (fila_color.fields (magnitud r))) df
      in if rf then map (\<lambda>r. r\<lparr>magnitud_color := clip 1.8 3.0 (magnitud r)\<rparr>) df1 else df1)"

text \<open>\<open>Series.mean()\<close>: the mean of the cells that are not \<open>NaN\<close>; \<open>NaN\<close> when there
  is none.\<close>

definition mean :: "cell list \<Rightarrow> cell" where
  "mean col =
     (let xs = map the (filter (\<lambda>c. c \<noteq> None) col)
      in if xs = [] then None else Some (sum_list xs / real (length xs)))"

text \<open>
  A text of the summary: \<open>"N/A"\<close>, or a float formatted with two decimals (\<open>f"{x:.2f}"\<close>,
  with \<open>" km"\<close> after it for the depth). The digits are not computed here.
\<close>

datatype texto = NA | Dos_decimales cell | Dos_decimales_km cell

record metricas =
  cantidad :: nat
  prom_mag :: cell
  prom_prof :: cell
  prom_mag_str :: texto
  prom_prof_str :: texto

definition metricas_de :: "'a fila_scheme list \<Rightarrow> metricas" where
  "metricas_de df =
     (let n = length df;
          pm = (if n > 0 then mean (map magnitud df) else None);
          pp = (if n > 0 then mean (map profundidad df) else None)
      in \<lparr>cantidad = n, prom_mag = pm, prom_prof = pp,
          prom_mag_str = (if n > 0 then Dos_decimales pm else NA),
          prom_prof_str = (if n > 0 then Dos_decimales_km pp else NA)\<rparr>)"

text \<open>The table (lines 340 to 343): four columns, sorted by magnitude, the first
  \<open>n\<close> rows, indexed from 1.\<close>

record fila_tabla =
  t_fecha :: string
  t_localizacion :: string
  t_magnitud :: cell
  t_clasificacion :: string

definition columnas_tabla :: "'a fila_scheme \<Rightarrow> fila_tabla" where
  "columnas_tabla r =
     \<lparr>t_fecha = fecha r, t_localizacion = localizacion r,
      t_magnitud = magnitud r, t_clasificacion = clasificacion r\<rparr>"

definition df_tabla ::
    "((real \<times> fila_tabla) list \<Rightarrow> (real \<times> fila_tabla) list) \<Rightarrow> nat \<Rightarrow>
     'a fila_scheme list \<Rightarrow> (nat \<times> fila_tabla) list" where
  "df_tabla argsort n df =
     (let t = map columnas_tabla df;
          t = take n (sort_values_desc argsort t_magnitud t)
      in zip [1..<length t + 1] t)"

text \<open>The figures, as the data they draw.\<close>

definition generaHistogrammag :: "'a fila_scheme list \<Rightarrow> cell list" where
  "generaHistogrammag df = map (\<lambda>r. clip_lower 0 (magnitud r)) df"

definition generaHistogramprof :: "'a fila_scheme list \<Rightarrow> cell list" where
  "generaHistogramprof df = map (\<lambda>r. clip_lower 0 (profundidad r)) df"

record mapa =
  puntos :: "fila_color list"
  centro :: "real \<times> real"
  zoom :: real
  rango_color :: "(real \<times> real) option"

definition generaMapa :: "fila_color list \<Rightarrow> zona \<Rightarrow> bool \<Rightarrow> mapa" where
  "generaMapa df z rf =
     \<lparr>puntos = df,
      centro = (if z = Puerto_Rico then (18.25178, -66.254512) else (10, 0)),
      zoom = (if z = Puerto_Rico then 7.5 else 1.0),
      rango_color = (if rf then Some (1.8, 3.0) else None)\<rparr>"

text \<open>
  What one run of the script shows, in order: the summary, the warning of an empty
  result, the table, the two histograms, and the map or the note that stands for it.
  (The request date of the summary, which reads the clock, and the headings are left
  out.) \<open>st.stop()\<close> ends the run after the warning.
\<close>

datatype salida =
    Resumen nat texto texto
  | Aviso_sin_eventos
  | Tabla "(nat \<times> fila_tabla) list"
  | Histograma_mag "cell list"
  | Histograma_prof "cell list"
  | Mapa mapa
  | Info_activar_mapa

definition datos ::
    "((int \<times> fila) list \<Rightarrow> (int \<times> fila) list) \<Rightarrow> (string \<Rightarrow> string \<Rightarrow> evento list) \<Rightarrow>
     controles \<Rightarrow> fila_color list" where
  "datos argsort QuakeFeed c =
     (let df = generaTabla argsort QuakeFeed (sev_map (sev c)) (periodo_map (periodo c));
          df = filtro_zona (zona_sel c) df
      in ajuste_color (rango_fijo (zona_sel c) (sev c) (periodo c)) df)"

definition panel ::
    "((real \<times> fila_tabla) list \<Rightarrow> (real \<times> fila_tabla) list) \<Rightarrow> controles \<Rightarrow>
     fila_color list \<Rightarrow> salida list" where
  "panel argsort c df =
     (let m = metricas_de df;
          resumen = Resumen (cantidad m) (prom_mag_str m) (prom_prof_str m)
      in if df = [] then [resumen, Aviso_sin_eventos]
         else [resumen]
              @ (if mostrar_tabla c then [Tabla (df_tabla argsort (n_eventos_tabla c) df)] else [])
              @ [Histograma_mag (generaHistogrammag df), Histograma_prof (generaHistogramprof df)]
              @ (if mostrar_mapa c
                 then [Mapa (generaMapa df (zona_sel c)
                              (rango_fijo (zona_sel c) (sev c) (periodo c)))]
                 else [Info_activar_mapa]))"

definition app ::
    "((int \<times> fila) list \<Rightarrow> (int \<times> fila) list) \<Rightarrow>
     ((real \<times> fila_tabla) list \<Rightarrow> (real \<times> fila_tabla) list) \<Rightarrow>
     (string \<Rightarrow> string \<Rightarrow> evento list) \<Rightarrow> controles \<Rightarrow> salida list" where
  "app argsort_time argsort_mag QuakeFeed c =
     panel argsort_mag c (datos argsort_time QuakeFeed c)"

section \<open>Two sorts for the library's\<close>

text \<open>
  Two functions that meet \<open>sorts_by_key\<close>: insertion sort by key, which is stable, and
  insertion sort of the reversed list, which puts equal keys in reverse order.
\<close>

definition argsort_estable :: "('k::linorder \<times> 'a) list \<Rightarrow> ('k \<times> 'a) list" where
  "argsort_estable xs = sort_key fst xs"

definition argsort_inverso :: "('k::linorder \<times> 'a) list \<Rightarrow> ('k \<times> 'a) list" where
  "argsort_inverso xs = sort_key fst (rev xs)"

text \<open>The order of two keys in a column sorted descending with the missing keys last.\<close>

definition ge_nulls_last :: "('k::linorder) option \<Rightarrow> 'k option \<Rightarrow> bool" where
  "ge_nulls_last a b =
     (case b of None \<Rightarrow> True
      | Some y \<Rightarrow> (case a of None \<Rightarrow> False | Some x \<Rightarrow> y \<le> x))"

section \<open>The library's default sort\<close>

text \<open>
  What \<open>argsort\<close> with \<open>kind="quicksort"\<close> does in numpy for a key type without a
  vectorised sort, such as \<open>datetime64\<close> (\<open>aquicksort\<close> in \<open>npysort/quicksort.cpp\<close>): an
  introsort on the array \<open>tosort\<close> of indices, by the keys \<open>v\<close>. A range of more than 17
  indices is partitioned around the median of its first, middle and last key; the larger
  part goes on a stack and the smaller is taken next; a range of at most 17 is sorted by
  insertion; a range that comes off the stack with its depth budget used up is sorted by
  \<open>aheapsort\<close>.

  The two scans of the partition loop stop at the latest at \<open>pr - 1\<close>, where the pivot has
  been put, and at \<open>pl\<close>, whose key is not above the pivot; the C code relies on these
  sentinels, here the bounds \<open>hi\<close> and \<open>lo\<close> are written out.
\<close>

definition INTP_SWAP :: "nat list \<Rightarrow> nat \<Rightarrow> nat \<Rightarrow> nat list" where
  "INTP_SWAP ts i j = ts[i := ts ! j, j := ts ! i]"

definition SMALL_QUICKSORT :: nat where
  "SMALL_QUICKSORT = 16"

fun npy_get_msb :: "nat \<Rightarrow> nat" where
  "npy_get_msb n = (if n < 2 then 0 else Suc (npy_get_msb (n div 2)))"

declare npy_get_msb.simps [simp del]

text \<open>The scans of the partition loop: \<open>do ++pi while v[*pi] < vp\<close> and
  \<open>do --pj while vp < v[*pj]\<close>, each from the position its first step reaches.\<close>

function sube :: "'k::linorder list \<Rightarrow> 'k \<Rightarrow> nat list \<Rightarrow> nat \<Rightarrow> nat \<Rightarrow> nat" where
  "sube v vp ts hi p =
     (if p < hi \<and> v ! (ts ! p) < vp then sube v vp ts hi (p + 1) else p)"
  by pat_completeness auto
termination
  by (relation "measure (\<lambda>(v, vp, ts, hi, p). hi - p)") auto

declare sube.simps [simp del]

function baja :: "'k::linorder list \<Rightarrow> 'k \<Rightarrow> nat list \<Rightarrow> nat \<Rightarrow> nat \<Rightarrow> nat" where
  "baja v vp ts lo p =
     (if lo < p \<and> vp < v ! (ts ! p) then baja v vp ts lo (p - 1) else p)"
  by pat_completeness auto
termination
  by (relation "measure (\<lambda>(v, vp, ts, lo, p). p)") auto

declare baja.simps [simp del]

text \<open>The partition loop \<open>for (;;)\<close>: scan, stop when the scans meet, else swap.\<close>

function bucle_particion ::
    "'k::linorder list \<Rightarrow> 'k \<Rightarrow> nat \<Rightarrow> nat \<Rightarrow> nat list \<Rightarrow> nat \<Rightarrow> nat \<Rightarrow> nat list \<times> nat" where
  "bucle_particion v vp lo hi ts p q =
     (let p' = sube v vp ts hi (p + 1);
          q' = baja v vp ts lo (q - 1)
      in if p' \<ge> q' then (ts, p')
         else bucle_particion v vp lo hi (INTP_SWAP ts p' q') p' q')"
  by pat_completeness auto
termination
proof (relation "measure (\<lambda>(v, vp, lo, hi, ts, p, q). q - p)")
  show "wf (measure (\<lambda>(v, vp, lo, hi, ts, p, q). q - p))"
    by simp
next
  fix v :: "'k::linorder list" and vp lo hi ts p q p' q'
  assume p': "p' = sube v vp ts hi (p + 1)" and q': "q' = baja v vp ts lo (q - 1)"
    and lt: "\<not> q' \<le> p'"
  have up: "\<And>a. a \<le> sube v vp ts hi a"
  proof -
    fix a show "a \<le> sube v vp ts hi a"
      by (induction v vp ts hi a rule: sube.induct) (subst sube.simps, auto)
  qed
  have down: "\<And>a. baja v vp ts lo a \<le> a"
  proof -
    fix a show "baja v vp ts lo a \<le> a"
      by (induction v vp ts lo a rule: baja.induct) (subst baja.simps, auto)
  qed
  have "p + 1 \<le> p'" and "q' \<le> q - 1"
    using up[of "p + 1"] down[of "q - 1"] by (simp_all add: p' q')
  with lt show "((v, vp, lo, hi, INTP_SWAP ts p' q', p', q'), (v, vp, lo, hi, ts, p, q))
                \<in> measure (\<lambda>(v, vp, lo, hi, ts, p, q). q - p)"
    by simp
qed

declare bucle_particion.simps [simp del]

text \<open>One partition of the range \<open>pl..pr\<close>: median of three, the pivot to \<open>pr - 1\<close>, the
  loop, the pivot to its place \<open>p\<close>.\<close>

definition particion :: "'k::linorder list \<Rightarrow> nat list \<Rightarrow> nat \<Rightarrow> nat \<Rightarrow> nat list \<times> nat" where
  "particion v ts pl pr =
     (let pm = pl + (pr - pl) div 2;
          ts = (if v ! (ts ! pm) < v ! (ts ! pl) then INTP_SWAP ts pm pl else ts);
          ts = (if v ! (ts ! pr) < v ! (ts ! pm) then INTP_SWAP ts pr pm else ts);
          ts = (if v ! (ts ! pm) < v ! (ts ! pl) then INTP_SWAP ts pm pl else ts);
          vp = v ! (ts ! pm);
          ts = INTP_SWAP ts pm (pr - 1);
          (ts, p) = bucle_particion v vp pl (pr - 1) ts pl (pr - 1)
      in (INTP_SWAP ts p (pr - 1), p))"

text \<open>Insertion sort of the range \<open>pl..pr\<close>.\<close>

fun desplaza :: "'k::linorder list \<Rightarrow> 'k \<Rightarrow> nat \<Rightarrow> nat list \<Rightarrow> nat \<Rightarrow> nat list \<times> nat" where
  "desplaza v vp pl ts pj =
     (if pj > pl \<and> vp < v ! (ts ! (pj - 1))
      then desplaza v vp pl (ts[pj := ts ! (pj - 1)]) (pj - 1)
      else (ts, pj))"

declare desplaza.simps [simp del]

definition insertar :: "'k::linorder list \<Rightarrow> nat \<Rightarrow> nat list \<Rightarrow> nat \<Rightarrow> nat list" where
  "insertar v pl ts p =
     (let vi = ts ! p; (ts, pj) = desplaza v (v ! vi) pl ts p in ts[pj := vi])"

definition insercion :: "'k::linorder list \<Rightarrow> nat list \<Rightarrow> nat \<Rightarrow> nat \<Rightarrow> nat list" where
  "insercion v ts pl pr = foldl (insertar v pl) ts [pl + 1..<pr + 1]"

text \<open>\<open>aheapsort\<close> on the \<open>n\<close> indices from position \<open>base\<close>; \<open>a[k]\<close> of the C code is
  \<open>ts ! (base + k - 1)\<close>. \<open>hundir\<close> is the inner loop, which sifts \<open>tmp\<close> down from \<open>i\<close>.\<close>

function hundir ::
    "'k::linorder list \<Rightarrow> nat \<Rightarrow> nat \<Rightarrow> nat \<Rightarrow> nat list \<Rightarrow> nat \<Rightarrow> nat list" where
  "hundir v base tmp n ts i =
     (let j = 2 * i in
      if 0 < i \<and> j \<le> n then
        (let j = (if j < n \<and> v ! (ts ! (base + j - 1)) < v ! (ts ! (base + j)) then j + 1 else j)
         in if v ! tmp < v ! (ts ! (base + j - 1))
            then hundir v base tmp n (ts[base + i - 1 := ts ! (base + j - 1)]) j
            else ts[base + i - 1 := tmp])
      else ts[base + i - 1 := tmp])"
  by pat_completeness auto
termination
  by (relation "measure (\<lambda>(v, base, tmp, n, ts, i). n + 1 - i)") (auto simp: Let_def)

declare hundir.simps [simp del]

definition aheapsort :: "'k::linorder list \<Rightarrow> nat list \<Rightarrow> nat \<Rightarrow> nat \<Rightarrow> nat list" where
  "aheapsort v ts base n =
     (let ts = foldl (\<lambda>ts l. hundir v base (ts ! (base + l - 1)) n ts l) ts (rev [1..<n div 2 + 1])
      in foldl (\<lambda>ts m. let tmp = ts ! (base + m - 1);
                           ts = ts[base + m - 1 := ts ! base]
                       in hundir v base tmp (m - 1) ts 1)
           ts (rev [2..<n + 1]))"

text \<open>
  The main loop. \<open>arriba\<close> says that control is at the top of the outer \<open>while (1)\<close>, the
  one place where the depth budget is tested; the stack holds the ranges put aside, each
  with the depth it was pushed with.
\<close>

function aquicksort_bucle ::
    "'k::linorder list \<Rightarrow> nat list \<Rightarrow> nat \<Rightarrow> nat \<Rightarrow> int \<Rightarrow> (nat \<times> nat \<times> int) list \<Rightarrow> bool
     \<Rightarrow> nat list" where
  "aquicksort_bucle v ts pl pr cdepth stack arriba =
     (if \<not> (arriba \<and> cdepth < 0) \<and> pr - pl > SMALL_QUICKSORT then
        (let (ts, p) = particion v ts pl pr;
             cdepth = cdepth - 1
         in if p - pl < pr - p
            then aquicksort_bucle v ts pl (p - 1) cdepth ((p + 1, pr, cdepth) # stack) False
            else aquicksort_bucle v ts (p + 1) pr cdepth ((pl, p - 1, cdepth) # stack) False)
      else
        (let ts = (if arriba \<and> cdepth < 0 then aheapsort v ts pl (pr - pl + 1)
                   else insercion v ts pl pr)
         in case stack of
              [] \<Rightarrow> ts
            | (pl, pr, cdepth) # stack \<Rightarrow> aquicksort_bucle v ts pl pr cdepth stack True))"
  by pat_completeness auto
termination
proof -
  have up: "a \<le> sube v vp ts hi a \<and> sube v vp ts hi a \<le> max a hi"
    for v :: "'k::linorder list" and vp ts hi a
    by (induction v vp ts hi a rule: sube.induct) (subst (1 2) sube.simps, auto)
  have down: "baja v vp ts lo a \<le> a"
    for v :: "'k::linorder list" and vp ts lo a
    by (induction v vp ts lo a rule: baja.induct) (subst baja.simps, auto)
  have part: "q \<le> hi \<Longrightarrow> p < snd (bucle_particion v vp lo hi ts p q)
                \<and> snd (bucle_particion v vp lo hi ts p q) \<le> max (p + 1) hi"
    for v :: "'k::linorder list" and vp lo hi ts p q
  proof (induction v vp lo hi ts p q rule: bucle_particion.induct)
    case (1 v vp lo hi ts p q)
    let ?p = "sube v vp ts hi (p + 1)" and ?q = "baja v vp ts lo (q - 1)"
    have bp: "p + 1 \<le> ?p" "?p \<le> max (p + 1) hi"
      using up[of "p + 1" v vp ts hi] by simp_all
    have bq: "?q \<le> q - 1"
      by (rule down)
    show ?case
    proof (cases "?q \<le> ?p")
      case True
      then show ?thesis
        using bp by (subst (1 2) bucle_particion.simps) (simp add: Let_def)
    next
      case False
      then have "?q \<le> hi"
        using bq "1.prems" by simp
      from "1.IH"[OF refl refl False this] False bp bq "1.prems" show ?thesis
        by (subst (1 2) bucle_particion.simps) (simp add: Let_def)
    qed
  qed
  have pivote: "pl < snd (particion v ts pl pr) \<and> snd (particion v ts pl pr) < pr"
    if "SMALL_QUICKSORT < pr - pl" for v :: "'k::linorder list" and ts pl pr
  proof -
    define ts3 where "ts3 = (let pm = pl + (pr - pl) div 2;
          ts = (if v ! (ts ! pm) < v ! (ts ! pl) then INTP_SWAP ts pm pl else ts);
          ts = (if v ! (ts ! pr) < v ! (ts ! pm) then INTP_SWAP ts pr pm else ts)
        in (if v ! (ts ! pm) < v ! (ts ! pl) then INTP_SWAP ts pm pl else ts))"
    let ?r = "snd (bucle_particion v (v ! (ts3 ! (pl + (pr - pl) div 2))) pl (pr - 1)
                   (INTP_SWAP ts3 (pl + (pr - pl) div 2) (pr - 1)) pl (pr - 1))"
    have eq: "snd (particion v ts pl pr) = ?r"
      by (simp add: particion_def ts3_def Let_def split: prod.splits)
    have "pl < ?r \<and> ?r \<le> max (pl + 1) (pr - 1)"
      by (rule part) simp
    moreover have "16 < pr - pl"
      using that by (simp add: SMALL_QUICKSORT_def)
    ultimately show ?thesis
      unfolding eq by arith
  qed
  show ?thesis
  proof (relation "measures [\<lambda>(v, ts, pl, pr, cdepth, stack, arriba).
                              (pr + 1 - pl) + sum_list (map (\<lambda>(l, r, d). r + 1 - l) stack),
                           \<lambda>(v, ts, pl, pr, cdepth, stack, arriba). length stack]",
       goal_cases)
    case 1
    show ?case by simp
  next
    case (2 v ts pl pr cdepth stack arriba x ts' p cd)
    have "pl < snd (particion v ts pl pr) \<and> snd (particion v ts pl pr) < pr"
      by (rule pivote) (use 2 in simp)
    with 2 have "pl < p \<and> p < pr"
      by (metis snd_conv)
    then show ?case by (simp; arith)
  next
    case (3 v ts pl pr cdepth stack arriba x ts' p cd)
    have "pl < snd (particion v ts pl pr) \<and> snd (particion v ts pl pr) < pr"
      by (rule pivote) (use 3 in simp)
    with 3 have "pl < p \<and> p < pr"
      by (metis snd_conv)
    then show ?case by (simp; arith)
  next
    case 4
    then show ?case by auto
  qed
qed

declare aquicksort_bucle.simps [simp del]

definition aquicksort :: "'k::linorder list \<Rightarrow> nat list" where
  "aquicksort v =
     (let num = length v
      in if num = 0 then []
         else aquicksort_bucle v [0..<num] 0 (num - 1) (2 * int (npy_get_msb num)) [] True)"

text \<open>The rows in the order of the indices, as \<open>non_nan_idx[non_nans.argsort()]\<close>
  takes them.\<close>

definition argsort_numpy :: "('k::linorder \<times> 'a) list \<Rightarrow> ('k \<times> 'a) list" where
  "argsort_numpy xs = map (\<lambda>i. xs ! i) (aquicksort (map fst xs))"

section \<open>Example feeds\<close>

text \<open>Concrete events, for the instances below.\<close>

definition evento_ej :: "time_val \<Rightarrow> string \<Rightarrow> pyval \<Rightarrow> pyval \<Rightarrow> pyval \<Rightarrow> evento" where
  "evento_ej t pl la lo m =
     \<lparr>ev_time = t, ev_lon = lo, ev_lat = la, ev_place = pl, ev_mag = m, ev_depth = PyFloat 10\<rparr>"

definition naive :: "int \<Rightarrow> time_val" where
  "naive t = Datetime \<lparr>wall = t, utcoffset = None\<rparr>"

definition feed_ej :: "evento list" where
  "feed_ej =
     [evento_ej (naive 3) ''A'' (PyFloat 18) (PyFloat (-66)) (PyFloat 1.5),
      evento_ej (naive 5) ''B'' (PyFloat 40) (PyFloat 3) (PyFloat 4),
      evento_ej (naive 5) ''C'' PyOther (PyFloat (-66)) PyNone]"

definition feed_horas :: "evento list" where
  "feed_horas =
     [evento_ej NoDatetime ''D'' (PyFloat 18) (PyFloat (-66)) (PyFloat 0),
      evento_ej (naive 3) ''A'' (PyFloat 18) (PyFloat (-66)) (PyFloat 0),
      evento_ej (naive 5) ''B'' (PyFloat 18) (PyFloat (-66)) PyNone,
      evento_ej (naive 5) ''C'' (PyFloat 18) (PyFloat (-66)) (PyFloat (-1)),
      evento_ej NoDatetime ''E'' (PyFloat 18) (PyFloat (-66)) (PyFloat 0)]"

definition QuakeFeed_ej :: "string \<Rightarrow> string \<Rightarrow> evento list" where
  "QuakeFeed_ej sv pr = feed_ej"

definition QuakeFeed_horas :: "string \<Rightarrow> string \<Rightarrow> evento list" where
  "QuakeFeed_horas sv pr = feed_horas"

definition fila_sin_magnitud :: fila where
  "fila_sin_magnitud = fila_de (evento_ej (naive 5) ''C'' (PyFloat 18) (PyFloat (-66)) PyNone) (Some 0)"

definition fila_fuerte :: fila where
  "fila_fuerte = fila_de (evento_ej (naive 5) ''F'' (PyFloat 18) (PyFloat (-66)) (PyFloat 6.4)) (Some 6.4)"

definition controles_ej :: controles where
  "controles_ej = \<lparr>sev = Todos, periodo = Mes, zona_sel = Mundo, mostrar_mapa = True,
                    mostrar_tabla = True, slider = 5\<rparr>"

definition QuakeFeed_vacio :: "string \<Rightarrow> string \<Rightarrow> evento list" where
  "QuakeFeed_vacio sv pr = []"

definition QuakeFeed_lejos :: "string \<Rightarrow> string \<Rightarrow> evento list" where
  "QuakeFeed_lejos sv pr = tl feed_ej"

definition feed_doce :: "evento list" where
  "feed_doce =
     map (\<lambda>k. evento_ej (naive k) ''X'' (PyFloat 18) (PyFloat (-66)) (PyFloat (real_of_int k / 2)))
       [3, 1, 4, 12, 5, 9, 2, 6, 11, 8, 7, 10]"

definition QuakeFeed_doce :: "string \<Rightarrow> string \<Rightarrow> evento list" where
  "QuakeFeed_doce sv pr = feed_doce"

definition feed_empate :: "evento list" where
  "feed_empate =
     map (\<lambda>pl. evento_ej (naive 5) pl (PyFloat 18) (PyFloat (-66)) (PyFloat 3))
       [''E01'', ''E02'', ''E03'', ''E04'', ''E05'', ''E06'', ''E07'', ''E08'', ''E09'', ''E10'', ''E11'', ''E12'', ''E13'', ''E14'', ''E15'', ''E16'', ''E17'', ''E18'', ''E19'', ''E20'']"

definition QuakeFeed_empate :: "string \<Rightarrow> string \<Rightarrow> evento list" where
  "QuakeFeed_empate sv pr = feed_empate"

definition fila_honda :: fila where
  "fila_honda = fila_de (evento_ej (naive 5) ''H'' (PyFloat 18) (PyFloat (-66)) PyNone) (Some 0)
                  \<lparr>profundidad := Some 30\<rparr>"

section \<open>Properties of the classification\<close>

lemma clasificacion_richter_niveles: "clasificacion_richter v \<in> niveles"
  by (cases v) (simp_all add: clasificacion_richter_def richter_de_float_def pd_isna_def niveles_def)

lemma clasificacion_richter_bordes:
  "clasificacion_richter (PyFloat 3.9) = ''menor''"
  "clasificacion_richter (PyFloat 4.0) = ''ligero''"
  "clasificacion_richter (PyFloat 9.9) = epico"
  "clasificacion_richter (PyFloat 10.0) = ''legendario''"
  "clasificacion_richter PyNone = ''desconocida''"
  "clasificacion_richter PyNaN = ''desconocida''"
  "clasificacion_richter PyOther = ''desconocida''"
  by (simp_all add: clasificacion_richter_def richter_de_float_def pd_isna_def)

text \<open>
  C1. The classification is claimed to match the table with tier intervals that leave no
  gap: a magnitude strictly between 3.9 and 4 belongs to a tier next to it, and only
  magnitudes from 10 on are \<open>legendario\<close>. The function returns \<open>legendario\<close> for 3.95
  and for 9.95 as it does for 10: the closed intervals of the chain leave the magnitudes
  between \<open>x.9\<close> and the next integer to the final \<open>return\<close>.
\<close>

theorem clasificacion_richter_hueco:
  "clasificacion_richter (PyFloat 3.95) = ''legendario'' \<and>
   clasificacion_richter (PyFloat 9.95) = ''legendario'' \<and>
   clasificacion_richter (PyFloat 10) = ''legendario'' \<and>
   clasificacion_richter (PyFloat 3.9) = ''menor'' \<and>
   clasificacion_richter (PyFloat 4) = ''ligero''"
  by (simp add: clasificacion_richter_def richter_de_float_def pd_isna_def)

section \<open>The library sort and \<open>sort_values\<close>\<close>

lemma argsort_estable_ok: "sorts_by_key argsort_estable"
  by (simp add: sorts_by_key_def argsort_estable_def)

lemma argsort_inverso_ok: "sorts_by_key argsort_inverso"
  by (simp add: sorts_by_key_def argsort_inverso_def)

lemma argsort_mset_snd:
  assumes "sorts_by_key argsort"
  shows "mset (map snd (argsort (map (\<lambda>r. (f r, r)) xs))) = mset xs"
proof -
  have "mset (map snd (argsort (map (\<lambda>r. (f r, r)) xs)))
        = image_mset snd (mset (argsort (map (\<lambda>r. (f r, r)) xs)))"
    by simp
  also have "\<dots> = image_mset snd (mset (map (\<lambda>r. (f r, r)) xs))"
    using assms by (simp add: sorts_by_key_def)
  also have "\<dots> = mset xs"
    by (simp add: image_mset.compositionality comp_def)
  finally show ?thesis .
qed

lemma argsort_keys:
  assumes "sorts_by_key argsort" and "p \<in> set (argsort (map (\<lambda>r. (f r, r)) xs))"
  shows "fst p = f (snd p) \<and> snd p \<in> set xs"
proof -
  have "set (argsort (map (\<lambda>r. (f r, r)) xs)) = set (map (\<lambda>r. (f r, r)) xs)"
    using assms(1) by (metis sorts_by_key_def set_mset_mset)
  with assms(2) show ?thesis by auto
qed

lemma sort_values_desc_split:
  assumes "sorts_by_key argsort"
  shows "\<exists>nn. sort_values_desc argsort key df = nn @ filter (\<lambda>r. key r = None) df
            \<and> mset nn = mset (filter (\<lambda>r. key r \<noteq> None) df)
            \<and> sorted (rev (map (\<lambda>r. the (key r)) nn))"
proof -
  let ?xs = "rev (filter (\<lambda>r. key r \<noteq> None) df)"
  let ?s = "argsort (map (\<lambda>r. (the (key r), r)) ?xs)"
  let ?nn = "rev (map snd ?s)"
  have eq: "sort_values_desc argsort key df = ?nn @ filter (\<lambda>r. key r = None) df"
    by (simp add: sort_values_desc_def Let_def rev_map)
  have ms: "mset ?nn = mset (filter (\<lambda>r. key r \<noteq> None) df)"
    using argsort_mset_snd[OF assms, of "\<lambda>r. the (key r)" ?xs] by simp
  have "\<And>p. p \<in> set ?s \<Longrightarrow> the (key (snd p)) = fst p"
    using argsort_keys[OF assms, of _ "\<lambda>r. the (key r)" ?xs] by simp
  then have "map (\<lambda>r. the (key r)) (map snd ?s) = map fst ?s"
    by (simp del: not_None_eq)
  moreover have "sorted (map fst ?s)"
    using assms by (simp add: sorts_by_key_def)
  ultimately have "sorted (map (\<lambda>r. the (key r)) (map snd ?s))"
    by (simp only:)
  then have "sorted (rev (map (\<lambda>r. the (key r)) ?nn))"
    by (simp only: rev_map rev_rev_ident)
  with eq ms show ?thesis by blast
qed

lemma sort_values_desc_mset:
  assumes "sorts_by_key argsort"
  shows "mset (sort_values_desc argsort key df) = mset df"
proof -
  obtain nn where nn: "sort_values_desc argsort key df = nn @ filter (\<lambda>r. key r = None) df"
      "mset nn = mset (filter (\<lambda>r. key r \<noteq> None) df)"
    using sort_values_desc_split[OF assms] by blast
  have "mset (sort_values_desc argsort key df)
        = mset (filter (\<lambda>r. key r \<noteq> None) df) + mset (filter (\<lambda>r. key r = None) df)"
    by (simp only: nn mset_append)
  also have "\<dots> = mset df"
    using multiset_partition[of "mset df" "\<lambda>r. key r \<noteq> None"] by (simp del: not_None_eq)
  finally show ?thesis .
qed

lemma sort_values_desc_length:
  assumes "sorts_by_key argsort"
  shows "length (sort_values_desc argsort key df) = length df"
  using sort_values_desc_mset[OF assms] by (metis size_mset)

lemma sort_values_desc_set:
  assumes "sorts_by_key argsort"
  shows "set (sort_values_desc argsort key df) = set df"
  using sort_values_desc_mset[OF assms] by (metis set_mset_mset)

lemma sort_values_desc_sorted:
  assumes "sorts_by_key argsort"
  shows "sorted_wrt ge_nulls_last (map key (sort_values_desc argsort key df))"
proof -
  obtain nn where nn: "sort_values_desc argsort key df = nn @ filter (\<lambda>r. key r = None) df"
      "mset nn = mset (filter (\<lambda>r. key r \<noteq> None) df)"
      "sorted (rev (map (\<lambda>r. the (key r)) nn))"
    using sort_values_desc_split[OF assms] by blast
  have nonnull: "\<And>r. r \<in> set nn \<Longrightarrow> key r \<noteq> None"
  proof -
    fix r assume "r \<in> set nn"
    then have "r \<in># mset (filter (\<lambda>r. key r \<noteq> None) df)"
      by (simp only: nn(2)[symmetric] set_mset_mset)
    then show "key r \<noteq> None" by (simp del: not_None_eq)
  qed
  have "sorted_wrt (\<lambda>a b. b \<le> a) (map (\<lambda>r. the (key r)) nn)"
    using nn(3) by (simp add: sorted_wrt_rev)
  then have "sorted_wrt (\<lambda>a b. the (key b) \<le> the (key a)) nn"
    by (simp add: sorted_wrt_map)
  then have "sorted_wrt (\<lambda>a b. ge_nulls_last (key a) (key b)) nn"
    by (rule sorted_wrt_mono_rel[rotated]) (use nonnull in \<open>fastforce simp: ge_nulls_last_def split: option.splits\<close>)
  moreover have "sorted_wrt (\<lambda>a b. ge_nulls_last (key a) (key b)) (filter (\<lambda>r. key r = None) df)"
    by (rule sorted_wrt_mono_rel[of _ "\<lambda>a b. True"]) (auto simp: ge_nulls_last_def)
  ultimately show ?thesis
    by (auto simp: nn(1) sorted_wrt_map sorted_wrt_append ge_nulls_last_def)
qed

section \<open>The columns of the data frame\<close>

lemma magnitud_extend [simp]: "magnitud (fila.extend r x) = magnitud r"
  by (simp add: fila.defs)

lemma length_magnitud_size_col: "length (magnitud_size_col mags) = length mags"
  by (simp add: magnitud_size_col_def Let_def)

lemma length_tabla_sin_ordenar: "length (tabla_sin_ordenar feed) = length feed"
  by (simp add: tabla_sin_ordenar_def length_magnitud_size_col)

lemma magnitud_tabla_sin_ordenar:
  "map magnitud (tabla_sin_ordenar feed) = map (\<lambda>e. to_numeric (ev_mag e)) feed"
  by (rule nth_equalityI)
     (simp_all add: tabla_sin_ordenar_def length_magnitud_size_col fila_de_def Let_def)

lemma size_tabla_sin_ordenar:
  "map magnitud_size (tabla_sin_ordenar feed)
   = magnitud_size_col (map magnitud (tabla_sin_ordenar feed))"
  unfolding magnitud_tabla_sin_ordenar
  by (rule nth_equalityI)
     (simp_all add: tabla_sin_ordenar_def length_magnitud_size_col fila_de_def Let_def)

lemma clasificacion_tabla_sin_ordenar:
  "r \<in> set (tabla_sin_ordenar feed) \<Longrightarrow>
   clasificacion r = clasificacion_richter (py_of_cell (magnitud r))"
  by (auto simp: tabla_sin_ordenar_def fila_de_def Let_def dest!: set_zip_leftD)

lemma magnitud_size_col_nth:
  assumes "i < length mags"
  shows "magnitud_size_col mags ! i =
         Some (if (\<forall>c \<in> set mags. case c of None \<Rightarrow> True | Some m \<Rightarrow> m \<le> 0) then 0.1
               else (case mags ! i of None \<Rightarrow> 0 | Some m \<Rightarrow> max m 0))"
proof -
  have one: "\<And>c. (fillna 0 (clip_lower 0 c) = Some 0) = (case c of None \<Rightarrow> True | Some m \<Rightarrow> m \<le> 0)"
    by (auto simp: fillna_def clip_lower_def split: option.splits)
  have val: "\<And>c. fillna 0 (clip_lower 0 c) = Some (case c of None \<Rightarrow> 0 | Some m \<Rightarrow> max m 0)"
    by (auto simp: fillna_def clip_lower_def max.commute split: option.splits)
  have all: "list_all (\<lambda>c. c = Some 0) (map (\<lambda>c. fillna 0 (clip_lower 0 c)) mags)
             = (\<forall>c \<in> set mags. case c of None \<Rightarrow> True | Some m \<Rightarrow> m \<le> 0)"
    by (simp only: list_all_iff set_map ball_simps one)
  have eq: "magnitud_size_col mags =
        (if (\<forall>c \<in> set mags. case c of None \<Rightarrow> True | Some m \<Rightarrow> m \<le> 0)
         then map (\<lambda>_. Some 0.1) (map (\<lambda>c. fillna 0 (clip_lower 0 c)) mags)
         else map (\<lambda>c. fillna 0 (clip_lower 0 c)) mags)"
    unfolding magnitud_size_col_def Let_def all by (rule refl)
  show ?thesis
  proof (cases "\<forall>c \<in> set mags. case c of None \<Rightarrow> True | Some m \<Rightarrow> m \<le> 0")
    case True
    have "magnitud_size_col mags = map (\<lambda>_. Some 0.1) (map (\<lambda>c. fillna 0 (clip_lower 0 c)) mags)"
      using eq by (simp only: if_P[OF True])
    then have "magnitud_size_col mags ! i = Some 0.1"
      using assms by simp
    then show ?thesis
      by (simp only: if_P[OF True])
  next
    case False
    have "magnitud_size_col mags = map (\<lambda>c. fillna 0 (clip_lower 0 c)) mags"
      using eq by (simp only: if_not_P[OF False])
    then have "magnitud_size_col mags ! i = Some (case mags ! i of None \<Rightarrow> 0 | Some m \<Rightarrow> max m 0)"
      using assms by (simp add: val)
    then show ?thesis
      by (simp only: if_not_P[OF False])
  qed
qed

lemma mean_mset:
  assumes "mset xs = mset ys"
  shows "mean xs = mean ys"
proof -
  let ?f = "\<lambda>col. map the (filter (\<lambda>c. c \<noteq> None) col)"
  have m: "mset (?f xs) = mset (?f ys)"
    using assms by (simp del: not_None_eq)
  then have "sum_list (?f xs) = sum_list (?f ys)"
    by (metis sum_mset_sum_list)
  moreover have "length (?f xs) = length (?f ys)"
    using m by (metis size_mset)
  moreover have "(?f xs = []) = (?f ys = [])"
    using m by (metis mset_zero_iff)
  ultimately show ?thesis
    by (simp add: mean_def Let_def del: not_None_eq)
qed

lemmas eval_defs = generaTabla_def tabla_sin_ordenar_def magnitud_size_col_def fila_de_def
  sort_values_desc_def argsort_estable_def argsort_inverso_def clave_time_utc_def
  feed_ej_def feed_horas_def evento_ej_def naive_def to_utc_def fillna_def clip_lower_def
  Let_def


lemmas ej_defs = eval_defs QuakeFeed_ej_def QuakeFeed_horas_def

section \<open>The order of the rows\<close>

text \<open>
  C2, as amended. \<open>generaTabla\<close> returns the rows that have a \<open>time_utc\<close> first, from
  the latest to the earliest, and then the rows without one, these in the order of the
  feed; the rows are those of the unsorted frame, each as often. This holds for every
  sort the library may use. The order of two rows with the same \<open>time_utc\<close> is left to
  that sort.
\<close>

theorem generaTabla_orden:
  assumes "sorts_by_key argsort"
  shows "\<exists>nn. generaTabla argsort QuakeFeed s p
               = nn @ filter (\<lambda>r. time_utc r = None) (tabla_sin_ordenar (QuakeFeed s p))
             \<and> mset nn = mset (filter (\<lambda>r. time_utc r \<noteq> None) (tabla_sin_ordenar (QuakeFeed s p)))
             \<and> sorted_wrt (\<lambda>a b. wall (the (time_utc b)) \<le> wall (the (time_utc a))) nn"
proof -
  let ?df = "tabla_sin_ordenar (QuakeFeed s p)"
  have k: "\<And>r::fila. (clave_time_utc r = None) = (time_utc r = None)"
    by (simp add: clave_time_utc_def)
  obtain nn where nn: "sort_values_desc argsort clave_time_utc ?df
        = nn @ filter (\<lambda>r. clave_time_utc r = None) ?df"
      "mset nn = mset (filter (\<lambda>r. clave_time_utc r \<noteq> None) ?df)"
      "sorted (rev (map (\<lambda>r. the (clave_time_utc r)) nn))"
    using sort_values_desc_split[OF assms] by blast
  have nonnull: "\<And>r. r \<in> set nn \<Longrightarrow> time_utc r \<noteq> None"
  proof -
    fix r assume "r \<in> set nn"
    then have "r \<in># mset (filter (\<lambda>r. clave_time_utc r \<noteq> None) ?df)"
      by (simp only: nn(2)[symmetric] set_mset_mset)
    then show "time_utc r \<noteq> None" by (simp add: k del: not_None_eq)
  qed
  have "sorted_wrt (\<lambda>a b. b \<le> a) (map (\<lambda>r. the (clave_time_utc r)) nn)"
    using nn(3) by (simp add: sorted_wrt_rev)
  then have "sorted_wrt (\<lambda>a b. the (clave_time_utc b) \<le> the (clave_time_utc a)) nn"
    by (simp add: sorted_wrt_map)
  moreover have "\<And>r. r \<in> set nn \<Longrightarrow> the (clave_time_utc r) = wall (the (time_utc r))"
    using nonnull by (simp add: clave_time_utc_def option.map_sel del: not_None_eq)
  ultimately have "sorted_wrt (\<lambda>a b. wall (the (time_utc b)) \<le> wall (the (time_utc a))) nn"
    by (auto elim!: sorted_wrt_mono_rel[rotated])
  with nn(1,2) show ?thesis
    by (auto simp: generaTabla_def Let_def k simp del: not_None_eq)
qed

theorem generaTabla_orden_witness:
  "sorts_by_key (argsort_estable :: (int \<times> fila) list \<Rightarrow> (int \<times> fila) list) \<and>
   (\<exists>nn. generaTabla argsort_estable QuakeFeed_horas ''all'' ''month''
               = nn @ filter (\<lambda>r. time_utc r = None) (tabla_sin_ordenar (QuakeFeed_horas ''all'' ''month''))
             \<and> mset nn = mset (filter (\<lambda>r. time_utc r \<noteq> None) (tabla_sin_ordenar (QuakeFeed_horas ''all'' ''month'')))
             \<and> sorted_wrt (\<lambda>a b. wall (the (time_utc b)) \<le> wall (the (time_utc a))) nn) \<and>
   map localizacion (generaTabla argsort_estable QuakeFeed_horas ''all'' ''month'')
     = [''B'', ''C'', ''A'', ''D'', ''E'']"
proof -
  have ok: "sorts_by_key (argsort_estable :: (int \<times> fila) list \<Rightarrow> (int \<times> fila) list)"
    by (rule argsort_estable_ok)
  have ev: "map localizacion (generaTabla argsort_estable QuakeFeed_horas ''all'' ''month'')
     = [''B'', ''C'', ''A'', ''D'', ''E'']"
    by (simp add: ej_defs)
  show ?thesis
    using ok generaTabla_orden[OF ok, of QuakeFeed_horas "''all''" "''month''"] ev by blast
qed

text \<open>
  The claim says more: that rows with equal \<open>time_utc\<close> keep their original order. The
  call does not ask for a stable sort (\<open>kind\<close> is left at its default, \<open>quicksort\<close>), and the
  partition step of that sort exchanges rows that have the same key. On a feed of twenty
  events with one and the same time, \<open>E01\<close> to \<open>E20\<close> in this order, the frame does not
  come back in this order.
\<close>

lemma aquicksort_veinte:
  "aquicksort [5, 5, 5, 5, 5, 5, 5, 5, 5, 5, 5, 5, 5, 5, 5, 5, 5, 5, 5, 5 :: int]
   = [0, 17, 16, 15, 14, 13, 12, 11, 10, 9, 8, 7, 6, 5, 4, 3, 2, 1, 18, 19]"
  by code_simp

lemma localizacion_fila_de: "localizacion (fila_de e s) = ev_place e"
  by (simp add: fila_de_def Let_def)

lemma clave_fila_de: "clave_time_utc (fila_de e s) = map_option wall (to_utc (ev_time e))"
  by (simp add: fila_de_def clave_time_utc_def Let_def)

theorem generaTabla_empate_no_estable:
  "map localizacion (tabla_sin_ordenar (QuakeFeed_empate ''all'' ''month''))
     = [''E01'', ''E02'', ''E03'', ''E04'', ''E05'', ''E06'', ''E07'', ''E08'', ''E09'', ''E10'',
        ''E11'', ''E12'', ''E13'', ''E14'', ''E15'', ''E16'', ''E17'', ''E18'', ''E19'', ''E20'']
   \<and> map clave_time_utc (tabla_sin_ordenar (QuakeFeed_empate ''all'' ''month''))
     = [Some 5, Some 5, Some 5, Some 5, Some 5, Some 5, Some 5, Some 5, Some 5, Some 5,
        Some 5, Some 5, Some 5, Some 5, Some 5, Some 5, Some 5, Some 5, Some 5, Some 5]
   \<and> map localizacion (generaTabla argsort_numpy QuakeFeed_empate ''all'' ''month'')
     \<noteq> [''E01'', ''E02'', ''E03'', ''E04'', ''E05'', ''E06'', ''E07'', ''E08'', ''E09'', ''E10'',
        ''E11'', ''E12'', ''E13'', ''E14'', ''E15'', ''E16'', ''E17'', ''E18'', ''E19'', ''E20'']"
proof -
  have a: "map localizacion (tabla_sin_ordenar (QuakeFeed_empate ''all'' ''month''))
     = [''E01'', ''E02'', ''E03'', ''E04'', ''E05'', ''E06'', ''E07'', ''E08'', ''E09'', ''E10'',
        ''E11'', ''E12'', ''E13'', ''E14'', ''E15'', ''E16'', ''E17'', ''E18'', ''E19'', ''E20'']"
    by (simp add: QuakeFeed_empate_def feed_empate_def tabla_sin_ordenar_def
        magnitud_size_col_def evento_ej_def fillna_def clip_lower_def Let_def
        localizacion_fila_de)
  have b: "map clave_time_utc (tabla_sin_ordenar (QuakeFeed_empate ''all'' ''month''))
     = [Some 5, Some 5, Some 5, Some 5, Some 5, Some 5, Some 5, Some 5, Some 5, Some 5,
        Some 5, Some 5, Some 5, Some 5, Some 5, Some 5, Some 5, Some 5, Some 5, Some 5]"
    by (simp add: QuakeFeed_empate_def feed_empate_def tabla_sin_ordenar_def
        magnitud_size_col_def evento_ej_def fillna_def clip_lower_def Let_def clave_fila_de
        naive_def to_utc_def)
  have c: "map localizacion (generaTabla argsort_numpy QuakeFeed_empate ''all'' ''month'')
     \<noteq> [''E01'', ''E02'', ''E03'', ''E04'', ''E05'', ''E06'', ''E07'', ''E08'', ''E09'', ''E10'',
        ''E11'', ''E12'', ''E13'', ''E14'', ''E15'', ''E16'', ''E17'', ''E18'', ''E19'', ''E20'']"
    by (simp add: generaTabla_def QuakeFeed_empate_def feed_empate_def tabla_sin_ordenar_def
        magnitud_size_col_def evento_ej_def fillna_def clip_lower_def Let_def
        sort_values_desc_def argsort_numpy_def clave_fila_de localizacion_fila_de naive_def
        to_utc_def aquicksort_veinte)
  show ?thesis
    by (intro conjI) (rule a b c)+
qed

section \<open>The marker size\<close>

text \<open>
  C4. In the frame that \<open>generaTabla\<close> returns, every \<open>magnitud_size\<close> is a number (never
  \<open>NaN\<close>) and not negative: it is the row's magnitude, with 0 for a negative or missing
  one; and when every magnitude of the frame is at most 0 or missing, every
  \<open>magnitud_size\<close> is 0.1 instead.
\<close>

theorem magnitud_size_no_negativa:
  assumes "sorts_by_key argsort" and "r \<in> set (generaTabla argsort QuakeFeed s p)"
  shows "magnitud_size r =
           Some (if (\<forall>r' \<in> set (generaTabla argsort QuakeFeed s p).
                       case magnitud r' of None \<Rightarrow> True | Some m \<Rightarrow> m \<le> 0)
                 then 0.1
                 else (case magnitud r of None \<Rightarrow> 0 | Some m \<Rightarrow> max m 0))
         \<and> (\<exists>v. magnitud_size r = Some v \<and> 0 \<le> v)"
proof -
  let ?df = "tabla_sin_ordenar (QuakeFeed s p)"
  let ?P = "\<lambda>c::cell. case c of None \<Rightarrow> True | Some m \<Rightarrow> m \<le> 0"
  have set_eq: "set (generaTabla argsort QuakeFeed s p) = set ?df"
    using sort_values_desc_set[OF assms(1)] by (simp add: generaTabla_def Let_def)
  with assms(2) obtain i where i: "i < length ?df" "r = ?df ! i"
    by (auto simp: in_set_conv_nth)
  have "magnitud_size r = map magnitud_size ?df ! i"
    using i by simp
  also have "\<dots> = magnitud_size_col (map magnitud ?df) ! i"
    by (simp only: size_tabla_sin_ordenar)
  also have "\<dots> = Some (if (\<forall>c \<in> set (map magnitud ?df). ?P c) then 0.1
                        else (case map magnitud ?df ! i of None \<Rightarrow> 0 | Some m \<Rightarrow> max m 0))"
    using i(1) by (intro magnitud_size_col_nth) simp
  also have "(\<forall>c \<in> set (map magnitud ?df). ?P c)
             = (\<forall>r' \<in> set (generaTabla argsort QuakeFeed s p). ?P (magnitud r'))"
    by (simp add: set_eq)
  also have "map magnitud ?df ! i = magnitud r"
    using i by simp
  finally have main: "magnitud_size r =
           Some (if (\<forall>r' \<in> set (generaTabla argsort QuakeFeed s p). ?P (magnitud r'))
                 then 0.1
                 else (case magnitud r of None \<Rightarrow> 0 | Some m \<Rightarrow> max m 0))" .
  then have "\<exists>v. magnitud_size r = Some v \<and> 0 \<le> v"
    by (cases "magnitud r") (auto split: if_splits)
  with main show ?thesis by blast
qed

theorem magnitud_size_no_negativa_witness:
  "sorts_by_key (argsort_estable :: (int \<times> fila) list \<Rightarrow> (int \<times> fila) list) \<and>
   map magnitud (generaTabla argsort_estable QuakeFeed_ej ''all'' ''month'') = [Some 4, None, Some 1.5] \<and>
   map magnitud_size (generaTabla argsort_estable QuakeFeed_ej ''all'' ''month'') = [Some 4, Some 0, Some 1.5] \<and>
   map magnitud (generaTabla argsort_estable QuakeFeed_horas ''all'' ''month'')
     = [None, Some (-1), Some 0, Some 0, Some 0] \<and>
   list_all (\<lambda>r. magnitud_size r = Some 0.1)
     (generaTabla argsort_estable QuakeFeed_horas ''all'' ''month'')"
proof -
  have ok: "sorts_by_key (argsort_estable :: (int \<times> fila) list \<Rightarrow> (int \<times> fila) list)"
    by (rule argsort_estable_ok)
  have a: "map magnitud (generaTabla argsort_estable QuakeFeed_ej ''all'' ''month'') = [Some 4, None, Some 1.5]"
    by (simp add: ej_defs)
  have b: "map magnitud_size (generaTabla argsort_estable QuakeFeed_ej ''all'' ''month'') = [Some 4, Some 0, Some 1.5]"
    by (simp add: ej_defs)
  have c: "map magnitud (generaTabla argsort_estable QuakeFeed_horas ''all'' ''month'')
     = [None, Some (-1), Some 0, Some 0, Some 0]"
    by (simp add: ej_defs)
  have allneg: "\<forall>r' \<in> set (generaTabla argsort_estable QuakeFeed_horas ''all'' ''month'').
                  case magnitud r' of None \<Rightarrow> True | Some m \<Rightarrow> m \<le> 0"
    by (simp add: ej_defs)
  have d: "\<forall>r \<in> set (generaTabla argsort_estable QuakeFeed_horas ''all'' ''month'').
      magnitud_size r = Some 0.1"
  proof
    fix r assume r: "r \<in> set (generaTabla argsort_estable QuakeFeed_horas ''all'' ''month'')"
    show "magnitud_size r = Some 0.1"
      using magnitud_size_no_negativa[OF ok r, unfolded if_P[OF allneg]] by blast
  qed
  have d': "list_all (\<lambda>r. magnitud_size r = Some 0.1)
     (generaTabla argsort_estable QuakeFeed_horas ''all'' ''month'')"
    using d by (simp only: list_all_iff)
  show ?thesis
    by (intro conjI) (rule ok a b c d')+
qed


section \<open>One row per event\<close>

lemma evento_tabla_sin_ordenar:
  "map (\<lambda>r. (time r, localizacion r)) (tabla_sin_ordenar feed)
   = map (\<lambda>e. (ev_time e, ev_place e)) feed"
  by (rule nth_equalityI)
     (simp_all add: tabla_sin_ordenar_def length_magnitud_size_col fila_de_def Let_def)

text \<open>
  C9. \<open>generaTabla\<close> returns as many rows as the feed has events, and the rows carry the
  times and places of the events, each as often as the feed does. Each step keeps the
  number of rows: the size column, the building of the rows, the sort.
\<close>

theorem generaTabla_cardinalidad:
  assumes "sorts_by_key argsort"
  shows "length (generaTabla argsort QuakeFeed s p) = length (QuakeFeed s p)
         \<and> mset (map (\<lambda>r. (time r, localizacion r)) (generaTabla argsort QuakeFeed s p))
             = mset (map (\<lambda>e. (ev_time e, ev_place e)) (QuakeFeed s p))
         \<and> length (magnitud_size_col mags) = length mags
         \<and> length (tabla_sin_ordenar feed) = length feed
         \<and> length (sort_values_desc argsort clave_time_utc df) = length df"
proof -
  let ?df = "tabla_sin_ordenar (QuakeFeed s p)"
  have g: "generaTabla argsort QuakeFeed s p = sort_values_desc argsort clave_time_utc ?df"
    by (simp add: generaTabla_def Let_def)
  have "mset (generaTabla argsort QuakeFeed s p) = mset ?df"
    unfolding g by (rule sort_values_desc_mset[OF assms])
  then have "mset (map (\<lambda>r. (time r, localizacion r)) (generaTabla argsort QuakeFeed s p))
             = mset (map (\<lambda>r. (time r, localizacion r)) ?df)"
    by simp
  then have m: "mset (map (\<lambda>r. (time r, localizacion r)) (generaTabla argsort QuakeFeed s p))
             = mset (map (\<lambda>e. (ev_time e, ev_place e)) (QuakeFeed s p))"
    by (simp only: evento_tabla_sin_ordenar)
  have l: "length (generaTabla argsort QuakeFeed s p) = length (QuakeFeed s p)"
    unfolding g by (simp add: sort_values_desc_length[OF assms] length_tabla_sin_ordenar)
  show ?thesis
    using l m sort_values_desc_length[OF assms, of clave_time_utc df]
    by (simp only: length_magnitud_size_col length_tabla_sin_ordenar simp_thms)
qed

theorem generaTabla_cardinalidad_witness:
  "sorts_by_key (argsort_inverso :: (int \<times> fila) list \<Rightarrow> (int \<times> fila) list) \<and>
   length (QuakeFeed_horas ''all'' ''month'') = 5 \<and>
   length (generaTabla argsort_inverso QuakeFeed_horas ''all'' ''month'') = 5"
proof -
  have ok: "sorts_by_key (argsort_inverso :: (int \<times> fila) list \<Rightarrow> (int \<times> fila) list)"
    by (rule argsort_inverso_ok)
  have "length (QuakeFeed_horas ''all'' ''month'') = 5"
    by (simp add: QuakeFeed_horas_def feed_horas_def)
  then show ?thesis
    using ok generaTabla_cardinalidad[OF ok, of QuakeFeed_horas "''all''" "''month''"] by simp
qed

section \<open>The filter by zone\<close>

lemma en_PR_iff:
  "en_PR r = (case lat r of None \<Rightarrow> False
              | Some la \<Rightarrow> (case lon r of None \<Rightarrow> False
                  | Some lo \<Rightarrow> 17.6 \<le> la \<and> la \<le> 18.7 \<and> -67.8 \<le> lo \<and> lo \<le> -64.8))"
  by (simp add: en_PR_def between_def PR_BBOX_def split: option.splits)

lemma filtrar_puerto_rico_filter: "filtrar_puerto_rico df = filter en_PR df"
  by (simp add: filtrar_puerto_rico_def)

text \<open>
  C5. Filtering a filtered frame again changes nothing; the filter keeps, in their
  order, exactly the rows whose latitude is in [17.6, 18.7] and whose longitude is in
  [-67.8, -64.8], bounds included; the zone \<open>Mundo\<close> leaves the frame as it is; and when
  no row is in the box the result is the empty frame.
\<close>

theorem filtrar_puerto_rico_idempotente:
  "filtrar_puerto_rico (filtrar_puerto_rico df) = filtrar_puerto_rico df
   \<and> filtrar_puerto_rico df
       = filter (\<lambda>r. case lat r of None \<Rightarrow> False
                      | Some la \<Rightarrow> (case lon r of None \<Rightarrow> False
                          | Some lo \<Rightarrow> 17.6 \<le> la \<and> la \<le> 18.7 \<and> -67.8 \<le> lo \<and> lo \<le> -64.8)) df
   \<and> filtro_zona Puerto_Rico df' = filtrar_puerto_rico df'
   \<and> filtro_zona Mundo df' = df'
   \<and> ((\<forall>r \<in> set df. \<not> en_PR r) \<longrightarrow> filtrar_puerto_rico df = [])"
proof -
  have "filtrar_puerto_rico df = filter (\<lambda>r. case lat r of None \<Rightarrow> False
                      | Some la \<Rightarrow> (case lon r of None \<Rightarrow> False
                          | Some lo \<Rightarrow> 17.6 \<le> la \<and> la \<le> 18.7 \<and> -67.8 \<le> lo \<and> lo \<le> -64.8)) df"
    unfolding filtrar_puerto_rico_filter
    by (rule filter_cong) (simp_all only: en_PR_iff)
  moreover have "filtrar_puerto_rico (filtrar_puerto_rico df) = filtrar_puerto_rico df"
    by (simp add: filtrar_puerto_rico_filter)
  moreover have "filtro_zona Puerto_Rico df' = filtrar_puerto_rico df'"
    and "filtro_zona Mundo df' = df'"
    by (simp_all add: filtro_zona_def)
  moreover have "(\<forall>r \<in> set df. \<not> en_PR r) \<longrightarrow> filtrar_puerto_rico df = []"
    by (simp add: filtrar_puerto_rico_filter filter_empty_conv)
  ultimately show ?thesis
    by (intro conjI)
qed

theorem filtrar_puerto_rico_idempotente_witness:
  "map localizacion (tabla_sin_ordenar feed_ej) = [''A'', ''B'', ''C''] \<and>
   map localizacion (filtrar_puerto_rico (tabla_sin_ordenar feed_ej)) = [''A''] \<and>
   filtrar_puerto_rico (filtrar_puerto_rico (tabla_sin_ordenar feed_ej))
     = filtrar_puerto_rico (tabla_sin_ordenar feed_ej) \<and>
   list_all (\<lambda>r. \<not> en_PR r) (tl (tabla_sin_ordenar feed_ej)) \<and>
   filtrar_puerto_rico (tl (tabla_sin_ordenar feed_ej)) = []"
proof -
  have a: "map localizacion (tabla_sin_ordenar feed_ej) = [''A'', ''B'', ''C'']"
    by (simp add: ej_defs)
  have b: "map localizacion (filtrar_puerto_rico (tabla_sin_ordenar feed_ej)) = [''A'']"
    by (simp add: ej_defs filtrar_puerto_rico_def en_PR_def between_def PR_BBOX_def)
  have c: "\<forall>r \<in> set (tl (tabla_sin_ordenar feed_ej)). \<not> en_PR r"
    by (simp add: ej_defs en_PR_def between_def PR_BBOX_def)
  have c': "list_all (\<lambda>r. \<not> en_PR r) (tl (tabla_sin_ordenar feed_ej))"
    using c by (simp only: list_all_iff)
  have i: "filtrar_puerto_rico (filtrar_puerto_rico (tabla_sin_ordenar feed_ej))
           = filtrar_puerto_rico (tabla_sin_ordenar feed_ej)"
    using filtrar_puerto_rico_idempotente[of "tabla_sin_ordenar feed_ej"] by blast
  have e: "filtrar_puerto_rico (tl (tabla_sin_ordenar feed_ej)) = []"
    using c filtrar_puerto_rico_idempotente[of "tl (tabla_sin_ordenar feed_ej)"] by blast
  show ?thesis
    by (intro conjI) (rule a b i c' e)+
qed

text \<open>
  C10. An event whose latitude or longitude cannot be read as a number (it becomes
  \<open>NaN\<close>) has its row in the view of the zone \<open>Mundo\<close> and not in the view of the zone
  \<open>Puerto Rico\<close>; no row of that view lacks a coordinate.
\<close>

theorem coordenadas_nulas_fuera_de_PR:
  assumes "sorts_by_key argsort" and "e \<in> set (QuakeFeed s p)"
    and "to_numeric (ev_lat e) = None \<or> to_numeric (ev_lon e) = None"
  shows "(\<exists>r \<in> set (filtro_zona Mundo (generaTabla argsort QuakeFeed s p)).
            time r = ev_time e \<and> localizacion r = ev_place e
            \<and> (lat r = None \<or> lon r = None)
            \<and> r \<notin> set (filtro_zona Puerto_Rico (generaTabla argsort QuakeFeed s p)))
         \<and> (\<forall>r \<in> set (filtro_zona Puerto_Rico (generaTabla argsort QuakeFeed s p)).
               lat r \<noteq> None \<and> lon r \<noteq> None)"
proof -
  let ?df = "tabla_sin_ordenar (QuakeFeed s p)"
  have set_eq: "set (generaTabla argsort QuakeFeed s p) = set ?df"
    using sort_values_desc_set[OF assms(1)] by (simp add: generaTabla_def Let_def)
  obtain i where i: "i < length (QuakeFeed s p)" "QuakeFeed s p ! i = e"
    using assms(2) by (auto simp: in_set_conv_nth)
  have li: "i < length ?df"
    using i(1) by (simp add: length_tabla_sin_ordenar)
  have row: "time (?df ! i) = ev_time e \<and> localizacion (?df ! i) = ev_place e
             \<and> lat (?df ! i) = to_numeric (ev_lat e) \<and> lon (?df ! i) = to_numeric (ev_lon e)"
    using i by (simp add: tabla_sin_ordenar_def length_magnitud_size_col fila_de_def Let_def)
  have second: "\<forall>r \<in> set (filtro_zona Puerto_Rico (generaTabla argsort QuakeFeed s p)).
               lat r \<noteq> None \<and> lon r \<noteq> None"
    by (auto simp: filtro_zona_def filtrar_puerto_rico_filter en_PR_iff split: option.splits)
  have nulo: "lat (?df ! i) = None \<or> lon (?df ! i) = None"
    using row assms(3) by simp
  with second have out: "?df ! i \<notin> set (filtro_zona Puerto_Rico (generaTabla argsort QuakeFeed s p))"
    by blast
  have "?df ! i \<in> set (filtro_zona Mundo (generaTabla argsort QuakeFeed s p))"
    using li by (simp add: filtro_zona_def set_eq)
  with row nulo out have first: "\<exists>r \<in> set (filtro_zona Mundo (generaTabla argsort QuakeFeed s p)).
            time r = ev_time e \<and> localizacion r = ev_place e
            \<and> (lat r = None \<or> lon r = None)
            \<and> r \<notin> set (filtro_zona Puerto_Rico (generaTabla argsort QuakeFeed s p))"
    by blast
  from first second show ?thesis by blast
qed

theorem coordenadas_nulas_fuera_de_PR_witness:
  "sorts_by_key (argsort_estable :: (int \<times> fila) list \<Rightarrow> (int \<times> fila) list) \<and>
   feed_ej ! 2 \<in> set (QuakeFeed_ej ''all'' ''month'') \<and>
   to_numeric (ev_lat (feed_ej ! 2)) = None \<and>
   map localizacion (filtro_zona Mundo (generaTabla argsort_estable QuakeFeed_ej ''all'' ''month''))
     = [''B'', ''C'', ''A''] \<and>
   map localizacion (filtro_zona Puerto_Rico (generaTabla argsort_estable QuakeFeed_ej ''all'' ''month''))
     = [''A''] \<and>
   list_all (\<lambda>r. lat r \<noteq> None \<and> lon r \<noteq> None)
     (filtro_zona Puerto_Rico (generaTabla argsort_estable QuakeFeed_ej ''all'' ''month''))"
proof -
  have ok: "sorts_by_key (argsort_estable :: (int \<times> fila) list \<Rightarrow> (int \<times> fila) list)"
    by (rule argsort_estable_ok)
  have e: "feed_ej ! 2 \<in> set (QuakeFeed_ej ''all'' ''month'')"
    by (simp add: QuakeFeed_ej_def feed_ej_def)
  have n: "to_numeric (ev_lat (feed_ej ! 2)) = None"
    by (simp add: feed_ej_def evento_ej_def)
  have n': "to_numeric (ev_lat (feed_ej ! 2)) = None \<or> to_numeric (ev_lon (feed_ej ! 2)) = None"
    using n by simp
  have m: "map localizacion (filtro_zona Mundo (generaTabla argsort_estable QuakeFeed_ej ''all'' ''month''))
     = [''B'', ''C'', ''A'']"
    by (simp add: ej_defs filtro_zona_def)
  have q: "map localizacion (filtro_zona Puerto_Rico (generaTabla argsort_estable QuakeFeed_ej ''all'' ''month''))
     = [''A'']"
    by (simp add: ej_defs filtro_zona_def filtrar_puerto_rico_def en_PR_def between_def PR_BBOX_def)
  have "\<forall>r \<in> set (filtro_zona Puerto_Rico
                      (generaTabla argsort_estable QuakeFeed_ej ''all'' ''month'')).
          lat r \<noteq> None \<and> lon r \<noteq> None"
    using coordenadas_nulas_fuera_de_PR[where QuakeFeed = QuakeFeed_ej and s = "''all''"
        and p = "''month''", OF ok e n']
    by blast
  then have q': "list_all (\<lambda>r. lat r \<noteq> None \<and> lon r \<noteq> None)
     (filtro_zona Puerto_Rico (generaTabla argsort_estable QuakeFeed_ej ''all'' ''month''))"
    by (simp only: list_all_iff)
  show ?thesis
    by (intro conjI) (rule ok e n m q q')+
qed

section \<open>The colour column\<close>

lemma ajuste_color_set:
  "r \<in> set (ajuste_color rf df) \<Longrightarrow>
   magnitud_color r = (if rf then clip 1.8 3.0 (magnitud r) else magnitud r)"
  by (auto simp: ajuste_color_def Let_def fila.defs fila_color.defs)

lemma truncate_extend: "fila.truncate (fila.extend r (fila_color.fields c)) = r"
  by (simp add: fila.defs fila_color.defs)

lemma truncate_magnitud_color:
  "fila.truncate (x\<lparr>magnitud_color := c\<rparr>) = fila.truncate x"
  by (simp add: fila.defs)

lemma ajuste_color_truncate: "map fila.truncate (ajuste_color rf df) = df"
  by (cases rf)
     (simp_all add: ajuste_color_def Let_def comp_def truncate_extend truncate_magnitud_color)

text \<open>
  C3, as amended. For the zone \<open>Puerto Rico\<close> with severity \<open>todos\<close> and period \<open>mes\<close>,
  the \<open>magnitud_color\<close> of a row with a magnitude is in [1.8, 3.0] (and is the magnitude
  when that is in the range), and the \<open>magnitud_color\<close> of a row without a magnitude is
  missing too. For every other choice \<open>magnitud_color\<close> is the magnitude. The other
  columns are unchanged.
\<close>

theorem magnitud_color_rango:
  "(\<forall>r \<in> set (ajuste_color (rango_fijo z s p) df).
      if z = Puerto_Rico \<and> s = Todos \<and> p = Mes
      then (case magnitud r of
              None \<Rightarrow> magnitud_color r = None
            | Some m \<Rightarrow> (\<exists>v. magnitud_color r = Some v \<and> 1.8 \<le> v \<and> v \<le> 3.0
                            \<and> (1.8 \<le> m \<and> m \<le> 3.0 \<longrightarrow> v = m)))
      else magnitud_color r = magnitud r)
   \<and> map fila.truncate (ajuste_color (rango_fijo z s p) df) = df"
proof -
  have "\<And>r. r \<in> set (ajuste_color (rango_fijo z s p) df) \<Longrightarrow>
      (if z = Puerto_Rico \<and> s = Todos \<and> p = Mes
      then (case magnitud r of
              None \<Rightarrow> magnitud_color r = None
            | Some m \<Rightarrow> (\<exists>v. magnitud_color r = Some v \<and> 1.8 \<le> v \<and> v \<le> 3.0
                            \<and> (1.8 \<le> m \<and> m \<le> 3.0 \<longrightarrow> v = m)))
      else magnitud_color r = magnitud r)"
    by (drule ajuste_color_set) (auto simp: rango_fijo_def clip_def split: option.splits)
  then show ?thesis
    using ajuste_color_truncate by blast
qed

theorem magnitud_color_rango_witness:
  "map magnitud_color (ajuste_color (rango_fijo Puerto_Rico Todos Mes) [fila_fuerte, fila_sin_magnitud])
     = [Some 3, None] \<and>
   map magnitud_color (ajuste_color (rango_fijo Mundo Todos Mes) [fila_fuerte, fila_sin_magnitud])
     = [Some 6.4, None] \<and>
   list_all (\<lambda>r. magnitud_color r = magnitud r)
     (ajuste_color (rango_fijo Mundo Todos Mes) [fila_fuerte, fila_sin_magnitud])"
proof -
  have a: "map magnitud_color (ajuste_color (rango_fijo Puerto_Rico Todos Mes) [fila_fuerte, fila_sin_magnitud])
     = [Some 3, None]"
    by (simp add: ajuste_color_def rango_fijo_def fila_fuerte_def fila_sin_magnitud_def fila_de_def
        evento_ej_def clip_def Let_def fila.defs fila_color.defs)
  have b: "map magnitud_color (ajuste_color (rango_fijo Mundo Todos Mes) [fila_fuerte, fila_sin_magnitud])
     = [Some 6.4, None]"
    by (simp add: ajuste_color_def rango_fijo_def fila_fuerte_def fila_sin_magnitud_def fila_de_def
        evento_ej_def clip_def Let_def fila.defs fila_color.defs)
  show ?thesis
    using a b magnitud_color_rango[of Mundo Todos Mes "[fila_fuerte, fila_sin_magnitud]"]
    by (simp add: list_all_iff)
qed

text \<open>
  The claim has every \<open>magnitud_color\<close> in [1.8, 3.0] for that choice. \<open>clip\<close> leaves
  \<open>NaN\<close> as it is, so a row without a magnitude has no \<open>magnitud_color\<close> in the range.
\<close>

theorem magnitud_color_nula:
  "rango_fijo Puerto_Rico Todos Mes \<and>
   map magnitud_color (ajuste_color (rango_fijo Puerto_Rico Todos Mes) [fila_sin_magnitud]) = [None] \<and>
   map (\<lambda>r. between (magnitud_color r) 1.8 3.0)
       (ajuste_color (rango_fijo Puerto_Rico Todos Mes) [fila_sin_magnitud]) = [False]"
  by (simp add: ajuste_color_def rango_fijo_def fila_sin_magnitud_def fila_de_def
        evento_ej_def clip_def between_def Let_def fila.defs fila_color.defs)

lemma magnitud_ajuste_color: "map magnitud (ajuste_color rf df) = map magnitud df"
  by (cases rf) (simp_all add: ajuste_color_def Let_def comp_def fila.defs fila_color.defs)

lemma length_ajuste_color: "length (ajuste_color rf df) = length df"
  by (simp add: ajuste_color_def Let_def)

section \<open>The summary\<close>

lemma escenario_A:
  assumes "sorts_by_key argsort"
    and "zona_sel c = Puerto_Rico \<longrightarrow>
         list_all en_PR (tabla_sin_ordenar (QuakeFeed (sev_map (sev c)) (periodo_map (periodo c))))"
    and "map ev_mag (QuakeFeed (sev_map (sev c)) (periodo_map (periodo c)))
         = [PyFloat 1.5, PyFloat 4.0, PyNone]"
  shows "map clasificacion (tabla_sin_ordenar (QuakeFeed (sev_map (sev c)) (periodo_map (periodo c))))
           = [''micro'', ''ligero'', ''desconocida'']
         \<and> cantidad (metricas_de (datos argsort QuakeFeed c)) = 3
         \<and> prom_mag (metricas_de (datos argsort QuakeFeed c)) = Some 2.75
         \<and> prom_mag_str (metricas_de (datos argsort QuakeFeed c)) = Dos_decimales (Some 2.75)"
proof -
  let ?feed = "QuakeFeed (sev_map (sev c)) (periodo_map (periodo c))"
  let ?df = "tabla_sin_ordenar ?feed"
  let ?out = "datos argsort QuakeFeed c"
  have len: "length ?feed = 3"
    using assms(3) by (metis length_map length_Cons list.size(3) numeral_3_eq_3)
  have mags: "map magnitud ?df = [Some 1.5, Some 4.0, None]"
    using assms(3) by (simp add: magnitud_tabla_sin_ordenar flip: map_map[of to_numeric ev_mag, unfolded comp_def])
  have "map clasificacion ?df = map (\<lambda>r. clasificacion_richter (py_of_cell (magnitud r))) ?df"
    by (rule map_cong) (simp_all add: clasificacion_tabla_sin_ordenar)
  also have "\<dots> = map (\<lambda>m. clasificacion_richter (py_of_cell m)) (map magnitud ?df)"
    by (simp add: comp_def)
  also have "\<dots> = [''micro'', ''ligero'', ''desconocida'']"
    unfolding mags by (simp add: clasificacion_richter_def richter_de_float_def pd_isna_def)
  finally have cls: "map clasificacion ?df = [''micro'', ''ligero'', ''desconocida'']" .
  have ms: "mset (generaTabla argsort QuakeFeed (sev_map (sev c)) (periodo_map (periodo c))) = mset ?df"
    using sort_values_desc_mset[OF assms(1)] by (simp add: generaTabla_def Let_def)
  have "filtro_zona (zona_sel c)
          (generaTabla argsort QuakeFeed (sev_map (sev c)) (periodo_map (periodo c)))
        = generaTabla argsort QuakeFeed (sev_map (sev c)) (periodo_map (periodo c))"
  proof (cases "zona_sel c")
    case Puerto_Rico
    with assms(2) have "\<forall>r \<in> set ?df. en_PR r"
      by (simp add: list_all_iff)
    then have "\<forall>r \<in> set (generaTabla argsort QuakeFeed (sev_map (sev c)) (periodo_map (periodo c))). en_PR r"
      using ms by (metis set_mset_mset)
    then show ?thesis
      by (simp add: filtro_zona_def filtrar_puerto_rico_filter)
  next
    case Mundo
    then show ?thesis by (simp add: filtro_zona_def)
  qed
  then have out: "?out = ajuste_color (rango_fijo (zona_sel c) (sev c) (periodo c))
                      (generaTabla argsort QuakeFeed (sev_map (sev c)) (periodo_map (periodo c)))"
    by (simp add: datos_def Let_def)
  have n: "length ?out = 3"
    unfolding out length_ajuste_color using ms len
    by (metis length_tabla_sin_ordenar size_mset)
  have "mset (map magnitud ?out) = mset (map magnitud ?df)"
    unfolding out magnitud_ajuste_color using ms by simp
  then have "mean (map magnitud ?out) = mean (map magnitud ?df)"
    by (rule mean_mset)
  also have "\<dots> = Some 2.75"
    unfolding mags by (simp add: mean_def Let_def del: not_None_eq)
  finally have pm: "mean (map magnitud ?out) = Some 2.75" .
  show ?thesis
    using cls n pm by (simp add: metricas_de_def Let_def)
qed


lemma no_nulos_concat:
  "map the (filter (\<lambda>c. c \<noteq> None) col)
   = concat (map (\<lambda>c. case c of None \<Rightarrow> [] | Some m \<Rightarrow> [m]) col)"
  by (induction col) (auto split: option.splits)

lemma mean_no_nulos:
  "mean (map f df) =
     (if concat (map (\<lambda>r. case f r of None \<Rightarrow> [] | Some m \<Rightarrow> [m]) df) = [] then None
      else Some (sum_list (concat (map (\<lambda>r. case f r of None \<Rightarrow> [] | Some m \<Rightarrow> [m]) df))
                 / real (length (concat (map (\<lambda>r. case f r of None \<Rightarrow> [] | Some m \<Rightarrow> [m]) df)))))"
proof -
  have "map the (filter (\<lambda>c. c \<noteq> None) (map f df))
        = concat (map (\<lambda>r. case f r of None \<Rightarrow> [] | Some m \<Rightarrow> [m]) df)"
    unfolding no_nulos_concat by (simp add: comp_def)
  then show ?thesis
    unfolding mean_def Let_def by (simp only:)
qed

text \<open>
  C6. The summary counts every row, and each of the two means (magnitude, depth) is the
  sum of the values that are there divided by their number, or missing when there is
  none; the texts are \<open>N/A\<close> for the empty frame and the formatted means otherwise. When
  the feed returns three events with the magnitudes 1.5, 4.0 and none, and all of them
  are in the chosen zone, the classifications of the events are \<open>micro\<close>, \<open>ligero\<close> and
  \<open>desconocida\<close>, the summary counts 3 events, and the mean magnitude is 2.75.
\<close>

theorem promedio_sin_nulos:
  "cantidad (metricas_de df) = length df
   \<and> prom_mag (metricas_de df)
       = (if concat (map (\<lambda>r. case magnitud r of None \<Rightarrow> [] | Some m \<Rightarrow> [m]) df) = [] then None
          else Some (sum_list (concat (map (\<lambda>r. case magnitud r of None \<Rightarrow> [] | Some m \<Rightarrow> [m]) df))
                 / real (length (concat (map (\<lambda>r. case magnitud r of None \<Rightarrow> [] | Some m \<Rightarrow> [m]) df)))))
   \<and> prom_prof (metricas_de df)
       = (if concat (map (\<lambda>r. case profundidad r of None \<Rightarrow> [] | Some d \<Rightarrow> [d]) df) = [] then None
          else Some (sum_list (concat (map (\<lambda>r. case profundidad r of None \<Rightarrow> [] | Some d \<Rightarrow> [d]) df))
                 / real (length (concat (map (\<lambda>r. case profundidad r of None \<Rightarrow> [] | Some d \<Rightarrow> [d]) df)))))
   \<and> prom_mag_str (metricas_de df)
       = (if df = [] then NA else Dos_decimales (prom_mag (metricas_de df)))
   \<and> prom_prof_str (metricas_de df)
       = (if df = [] then NA else Dos_decimales_km (prom_prof (metricas_de df)))
   \<and> (sorts_by_key argsort
       \<and> (zona_sel c = Puerto_Rico \<longrightarrow>
            list_all en_PR (tabla_sin_ordenar (QuakeFeed (sev_map (sev c)) (periodo_map (periodo c)))))
       \<and> map ev_mag (QuakeFeed (sev_map (sev c)) (periodo_map (periodo c)))
           = [PyFloat 1.5, PyFloat 4.0, PyNone]
       \<longrightarrow> map clasificacion
             (tabla_sin_ordenar (QuakeFeed (sev_map (sev c)) (periodo_map (periodo c))))
           = [''micro'', ''ligero'', ''desconocida'']
         \<and> cantidad (metricas_de (datos argsort QuakeFeed c)) = 3
         \<and> prom_mag (metricas_de (datos argsort QuakeFeed c)) = Some 2.75
         \<and> prom_mag_str (metricas_de (datos argsort QuakeFeed c)) = Dos_decimales (Some 2.75))"
proof -
  have n: "cantidad (metricas_de df) = length df"
    by (simp add: metricas_de_def Let_def)
  have "prom_mag (metricas_de df) = mean (map magnitud df)"
    by (cases df) (simp_all add: metricas_de_def Let_def mean_def)
  then have pm: "prom_mag (metricas_de df)
       = (if concat (map (\<lambda>r. case magnitud r of None \<Rightarrow> [] | Some m \<Rightarrow> [m]) df) = [] then None
          else Some (sum_list (concat (map (\<lambda>r. case magnitud r of None \<Rightarrow> [] | Some m \<Rightarrow> [m]) df))
                 / real (length (concat (map (\<lambda>r. case magnitud r of None \<Rightarrow> [] | Some m \<Rightarrow> [m]) df)))))"
    by (simp only: mean_no_nulos)
  have "prom_prof (metricas_de df) = mean (map profundidad df)"
    by (cases df) (simp_all add: metricas_de_def Let_def mean_def)
  then have pp: "prom_prof (metricas_de df)
       = (if concat (map (\<lambda>r. case profundidad r of None \<Rightarrow> [] | Some d \<Rightarrow> [d]) df) = [] then None
          else Some (sum_list (concat (map (\<lambda>r. case profundidad r of None \<Rightarrow> [] | Some d \<Rightarrow> [d]) df))
                 / real (length (concat (map (\<lambda>r. case profundidad r of None \<Rightarrow> [] | Some d \<Rightarrow> [d]) df)))))"
    by (simp only: mean_no_nulos)
  have sm: "prom_mag_str (metricas_de df)
       = (if df = [] then NA else Dos_decimales (prom_mag (metricas_de df)))"
    by (simp add: metricas_de_def Let_def)
  have sp: "prom_prof_str (metricas_de df)
       = (if df = [] then NA else Dos_decimales_km (prom_prof (metricas_de df)))"
    by (simp add: metricas_de_def Let_def)
  have esc: "sorts_by_key argsort
       \<and> (zona_sel c = Puerto_Rico \<longrightarrow>
            list_all en_PR (tabla_sin_ordenar (QuakeFeed (sev_map (sev c)) (periodo_map (periodo c)))))
       \<and> map ev_mag (QuakeFeed (sev_map (sev c)) (periodo_map (periodo c)))
           = [PyFloat 1.5, PyFloat 4.0, PyNone]
       \<longrightarrow> map clasificacion
             (tabla_sin_ordenar (QuakeFeed (sev_map (sev c)) (periodo_map (periodo c))))
           = [''micro'', ''ligero'', ''desconocida'']
         \<and> cantidad (metricas_de (datos argsort QuakeFeed c)) = 3
         \<and> prom_mag (metricas_de (datos argsort QuakeFeed c)) = Some 2.75
         \<and> prom_mag_str (metricas_de (datos argsort QuakeFeed c)) = Dos_decimales (Some 2.75)"
    by (intro impI, elim conjE,
        rule escenario_A[where argsort = argsort and c = c and QuakeFeed = QuakeFeed])
  show ?thesis
    by (intro conjI) (rule n pm pp sm sp esc)+
qed

theorem promedio_sin_nulos_witness:
  "sorts_by_key (argsort_estable :: (int \<times> fila) list \<Rightarrow> (int \<times> fila) list) \<and>
   zona_sel controles_ej = Mundo \<and>
   map ev_mag (QuakeFeed_ej (sev_map (sev controles_ej)) (periodo_map (periodo controles_ej)))
     = [PyFloat 1.5, PyFloat 4.0, PyNone] \<and>
   cantidad (metricas_de (datos argsort_estable QuakeFeed_ej controles_ej)) = 3 \<and>
   prom_mag (metricas_de (datos argsort_estable QuakeFeed_ej controles_ej)) = Some 2.75 \<and>
   map magnitud [fila_fuerte, fila_sin_magnitud, fila_honda] = [Some 6.4, None, None] \<and>
   map profundidad [fila_fuerte, fila_sin_magnitud, fila_honda] = [Some 10, Some 10, Some 30] \<and>
   cantidad (metricas_de [fila_fuerte, fila_sin_magnitud, fila_honda]) = 3 \<and>
   prom_mag (metricas_de [fila_fuerte, fila_sin_magnitud, fila_honda]) = Some 6.4 \<and>
   prom_prof (metricas_de [fila_fuerte, fila_sin_magnitud, fila_honda]) = Some (50 / 3) \<and>
   prom_prof_str (metricas_de [fila_fuerte, fila_sin_magnitud, fila_honda])
     = Dos_decimales_km (Some (50 / 3)) \<and>
   prom_mag (metricas_de [fila_sin_magnitud]) = None"
proof -
  have ok: "sorts_by_key (argsort_estable :: (int \<times> fila) list \<Rightarrow> (int \<times> fila) list)"
    by (rule argsort_estable_ok)
  have z: "zona_sel controles_ej = Mundo"
    by (simp add: controles_ej_def)
  then have z': "zona_sel controles_ej = Puerto_Rico \<longrightarrow>
         list_all en_PR (tabla_sin_ordenar (QuakeFeed_ej (sev_map (sev controles_ej))
                                             (periodo_map (periodo controles_ej))))"
    by simp
  have m: "map ev_mag (QuakeFeed_ej (sev_map (sev controles_ej)) (periodo_map (periodo controles_ej)))
     = [PyFloat 1.5, PyFloat 4.0, PyNone]"
    by (simp add: QuakeFeed_ej_def feed_ej_def evento_ej_def)
  have esc: "cantidad (metricas_de (datos argsort_estable QuakeFeed_ej controles_ej)) = 3"
    "prom_mag (metricas_de (datos argsort_estable QuakeFeed_ej controles_ej)) = Some 2.75"
    using promedio_sin_nulos[where argsort = argsort_estable and QuakeFeed = QuakeFeed_ej
        and c = controles_ej, THEN conjunct2, THEN conjunct2, THEN conjunct2, THEN conjunct2,
        THEN conjunct2, THEN mp, OF conjI[OF ok conjI[OF z' m]]]
    by (rule conjunct2[THEN conjunct1], rule conjunct2[THEN conjunct2, THEN conjunct1])
  have cols: "map magnitud [fila_fuerte, fila_sin_magnitud, fila_honda] = [Some 6.4, None, None]"
    "map profundidad [fila_fuerte, fila_sin_magnitud, fila_honda] = [Some 10, Some 10, Some 30]"
    by (simp_all add: fila_fuerte_def fila_sin_magnitud_def fila_honda_def fila_de_def
        evento_ej_def Let_def)
  have gen: "cantidad (metricas_de [fila_fuerte, fila_sin_magnitud, fila_honda]) = 3"
    "prom_mag (metricas_de [fila_fuerte, fila_sin_magnitud, fila_honda]) = Some 6.4"
    "prom_prof (metricas_de [fila_fuerte, fila_sin_magnitud, fila_honda]) = Some (50 / 3)"
    "prom_prof_str (metricas_de [fila_fuerte, fila_sin_magnitud, fila_honda])
       = Dos_decimales_km (Some (50 / 3))"
    using promedio_sin_nulos[of "[fila_fuerte, fila_sin_magnitud, fila_honda]"]
      cols[unfolded list.map]
    by simp_all
  have nul: "prom_mag (metricas_de [fila_sin_magnitud]) = None"
    using promedio_sin_nulos[of "[fila_sin_magnitud]"] cols[unfolded list.map]
    by simp
  show ?thesis
    by (intro conjI) (rule ok z m esc cols gen nul)+
qed

text \<open>
  C8. When no row is left after the filter, the run shows the summary with the count 0
  and \<open>N/A\<close> for both means, then the warning that no events were found, and nothing
  else: no table, no histogram, no map.
\<close>

theorem sin_eventos:
  assumes "datos argsort_time QuakeFeed c = []"
  shows "app argsort_time argsort_mag QuakeFeed c = [Resumen 0 NA NA, Aviso_sin_eventos]"
  using assms by (simp add: app_def panel_def metricas_de_def Let_def)

theorem sin_eventos_witness:
  "datos argsort_estable QuakeFeed_vacio controles_ej = [] \<and>
   app argsort_estable argsort_estable QuakeFeed_vacio controles_ej
     = [Resumen 0 NA NA, Aviso_sin_eventos] \<and>
   length (QuakeFeed_lejos ''all'' ''month'') = 2 \<and>
   datos argsort_estable QuakeFeed_lejos (controles_ej\<lparr>zona_sel := Puerto_Rico\<rparr>) = [] \<and>
   app argsort_estable argsort_estable QuakeFeed_lejos (controles_ej\<lparr>zona_sel := Puerto_Rico\<rparr>)
     = [Resumen 0 NA NA, Aviso_sin_eventos]"
proof -
  have a: "datos argsort_estable QuakeFeed_vacio controles_ej = []"
    by (simp add: datos_def ej_defs QuakeFeed_vacio_def filtro_zona_def ajuste_color_def
        controles_ej_def)
  have b: "datos argsort_estable QuakeFeed_lejos (controles_ej\<lparr>zona_sel := Puerto_Rico\<rparr>) = []"
    by (simp add: datos_def ej_defs QuakeFeed_lejos_def filtro_zona_def ajuste_color_def
        controles_ej_def filtrar_puerto_rico_def en_PR_def between_def PR_BBOX_def)
  have c: "length (QuakeFeed_lejos ''all'' ''month'') = 2"
    by (simp add: QuakeFeed_lejos_def feed_ej_def)
  show ?thesis
    using a b c sin_eventos[OF a, of argsort_estable] sin_eventos[OF b, of argsort_estable]
    by blast
qed


section \<open>The table\<close>

lemma df_tabla_snd:
  "map snd (df_tabla argsort n df)
   = take n (sort_values_desc argsort t_magnitud (map columnas_tabla df))"
  unfolding df_tabla_def Let_def
  by (rule map_snd_zip) (simp only: length_upt add_diff_cancel_right')

lemma df_tabla_fst:
  "map fst (df_tabla argsort n df) = [1..<length (df_tabla argsort n df) + 1]"
proof -
  have "\<And>xs :: fila_tabla list. map fst (zip [1..<length xs + 1] xs) = [1..<length xs + 1]"
    by (rule map_fst_zip) (simp only: length_upt add_diff_cancel_right')
  moreover have "\<And>xs :: fila_tabla list. length (zip [1..<length xs + 1] xs) = length xs"
    by (simp only: length_zip length_upt add_diff_cancel_right' min.idem)
  ultimately show ?thesis
    unfolding df_tabla_def Let_def by (simp only:)
qed

lemma mset_image_reordena:
  "image_mset f M = mset ys \<Longrightarrow> \<exists>xs. mset xs = M \<and> map f xs = ys"
proof (induction ys arbitrary: M)
  case Nil
  then have "M = {#}"
    by simp
  then show ?case
    by simp
next
  case (Cons y ys)
  then have "image_mset f M = add_mset y (mset ys)"
    by simp
  then obtain M1 a where a: "M = add_mset a M1" "f a = y" "image_mset f M1 = mset ys"
    by (rule msed_map_invR[THEN exE]) blast
  from Cons.IH[OF a(3)] obtain xs where xs: "mset xs = M1" "map f xs = ys"
    by (elim exE conjE)
  have "mset (a # xs) = M \<and> map f (a # xs) = y # ys"
    by (simp add: xs a)
  then show ?case
    by (rule exI)
qed

lemma mset_map_reordena:
  "mset ys = mset (map f xs) \<Longrightarrow> \<exists>xs'. mset xs' = mset xs \<and> map f xs' = ys"
  by (rule mset_image_reordena) simp

text \<open>
  C7. With the table switched on, a row count \<open>N\<close> from 5 to 20 and a frame that is not
  empty, the run shows, after the summary, a table of \<open>min N (length df)\<close> rows, indexed
  1, 2, ...; its rows are the date, place, magnitude and classification of rows \<open>rs\<close> of
  the frame, which are in descending order of magnitude with the missing magnitudes
  last, and no row of the frame left out comes before a row shown in that order.
\<close>

theorem df_tabla_primeros:
  assumes "sorts_by_key argsort" and "mostrar_tabla c" and "5 \<le> slider c" and "slider c \<le> 20"
    and "df \<noteq> []"
  shows "\<exists>T rs. panel argsort c df ! 1 = Tabla T
             \<and> length T = min (slider c) (length df)
             \<and> map fst T = [1..<min (slider c) (length df) + 1]
             \<and> map snd T
                 = map (\<lambda>r. \<lparr>t_fecha = fecha r, t_localizacion = localizacion r,
                              t_magnitud = magnitud r, t_clasificacion = clasificacion r\<rparr>) rs
             \<and> mset rs \<subseteq># mset df
             \<and> sorted_wrt ge_nulls_last (map magnitud rs)
             \<and> (\<forall>x \<in># mset rs. \<forall>y \<in># mset df - mset rs.
                   ge_nulls_last (magnitud x) (magnitud y))
             \<and> sorted_wrt ge_nulls_last (map (\<lambda>(i, r). t_magnitud r) T)"
proof -
  let ?n = "slider c"
  let ?t = "map columnas_tabla df"
  let ?s = "sort_values_desc argsort t_magnitud ?t"
  let ?T = "df_tabla argsort ?n df"
  have p: "panel argsort c df ! 1 = Tabla ?T"
    using assms(2,5) by (simp add: panel_def Let_def n_eventos_tabla_def)
  have ms: "mset ?s = mset ?t"
    by (rule sort_values_desc_mset[OF assms(1)])
  have ls: "length ?s = length df"
    using sort_values_desc_length[OF assms(1), of t_magnitud ?t] by simp
  have snd: "map snd ?T = take ?n ?s"
    by (rule df_tabla_snd)
  have len: "length ?T = min ?n (length df)"
    using arg_cong[OF snd, of length] ls by (simp add: min.commute)
  have idx: "map fst ?T = [1..<min ?n (length df) + 1]"
    using df_tabla_fst[of argsort ?n df] by (simp only: len)
  obtain df' where df': "mset df' = mset df" "map columnas_tabla df' = ?s"
    using mset_map_reordena[OF ms] by blast
  let ?rs = "take ?n df'"
  have cols: "map snd ?T
        = map (\<lambda>r. \<lparr>t_fecha = fecha r, t_localizacion = localizacion r,
                     t_magnitud = magnitud r, t_clasificacion = clasificacion r\<rparr>) ?rs"
    unfolding snd df'(2)[symmetric] take_map by (simp add: columnas_tabla_def)
  have parts: "mset df = mset ?rs + mset (drop ?n df')"
    unfolding df'(1)[symmetric] by (simp flip: mset_append)
  have sub: "mset ?rs \<subseteq># mset df"
    unfolding parts by simp
  have rest: "mset df - mset ?rs = mset (drop ?n df')"
    unfolding parts by simp
  have mag: "map magnitud df' = map t_magnitud ?s"
    unfolding df'(2)[symmetric] by (simp add: columnas_tabla_def)
  have srt: "sorted_wrt ge_nulls_last (map magnitud df')"
    unfolding mag by (rule sort_values_desc_sorted[OF assms(1)])
  have split: "map magnitud df' = map magnitud ?rs @ map magnitud (drop ?n df')"
    by (simp flip: map_append)
  have s1: "sorted_wrt ge_nulls_last (map magnitud ?rs)"
    using srt unfolding split by (simp only: sorted_wrt_append)
  have cross: "\<forall>x \<in># mset ?rs. \<forall>y \<in># mset df - mset ?rs.
                 ge_nulls_last (magnitud x) (magnitud y)"
    unfolding rest using srt unfolding split by (simp add: sorted_wrt_append)
  have "map (\<lambda>(i, r). t_magnitud r) ?T = map t_magnitud (map snd ?T)"
    by (simp add: comp_def case_prod_unfold)
  also have "\<dots> = map magnitud ?rs"
    unfolding cols by (simp add: comp_def)
  finally have s2: "sorted_wrt ge_nulls_last (map (\<lambda>(i, r). t_magnitud r) ?T)"
    using s1 by simp
  show ?thesis
    by (intro exI[of _ ?T] exI[of _ ?rs] conjI) (rule p len idx cols sub s1 cross s2)+
qed

theorem df_tabla_primeros_witness:
  "sorts_by_key (argsort_estable :: (real \<times> fila_tabla) list \<Rightarrow> (real \<times> fila_tabla) list) \<and>
   mostrar_tabla controles_ej \<and> slider controles_ej = 5 \<and>
   length (datos argsort_inverso QuakeFeed_doce controles_ej) = 12 \<and>
   (\<exists>T. panel argsort_estable controles_ej (datos argsort_inverso QuakeFeed_doce controles_ej) ! 1
           = Tabla T
        \<and> length T = 5 \<and> map fst T = [1, 2, 3, 4, 5]
        \<and> sorted_wrt ge_nulls_last (map (\<lambda>(i, r). t_magnitud r) T))"
proof -
  let ?df = "datos argsort_inverso QuakeFeed_doce controles_ej"
  have ok: "sorts_by_key (argsort_estable :: (real \<times> fila_tabla) list \<Rightarrow> (real \<times> fila_tabla) list)"
    by (rule argsort_estable_ok)
  have m: "mostrar_tabla controles_ej" and sl: "slider controles_ej = 5"
    by (simp_all add: controles_ej_def)
  have len: "length ?df = 12"
    by (simp add: datos_def generaTabla_def Let_def filtro_zona_def controles_ej_def
        length_ajuste_color sort_values_desc_length[OF argsort_inverso_ok]
        length_tabla_sin_ordenar QuakeFeed_doce_def feed_doce_def)
  then have ne: "?df \<noteq> []"
    by auto
  have up: "[1..<min 5 12 + 1] = [1, 2, 3, 4, 5::nat]"
    by (simp add: upt_rec)
  have "5 \<le> slider controles_ej" and "slider controles_ej \<le> 20"
    by (simp_all add: sl)
  from df_tabla_primeros[OF ok m this ne]
  obtain T rs where "panel argsort_estable controles_ej ?df ! 1 = Tabla T
      \<and> length T = min (slider controles_ej) (length ?df)
      \<and> map fst T = [1..<min (slider controles_ej) (length ?df) + 1]
      \<and> map snd T
          = map (\<lambda>r. \<lparr>t_fecha = fecha r, t_localizacion = localizacion r,
                       t_magnitud = magnitud r, t_clasificacion = clasificacion r\<rparr>) rs
      \<and> mset rs \<subseteq># mset ?df
      \<and> sorted_wrt ge_nulls_last (map magnitud rs)
      \<and> (\<forall>x \<in># mset rs. \<forall>y \<in># mset ?df - mset rs.
            ge_nulls_last (magnitud x) (magnitud y))
      \<and> sorted_wrt ge_nulls_last (map (\<lambda>(i, r). t_magnitud r) T)"
    by (elim exE)
  then have T: "panel argsort_estable controles_ej ?df ! 1 = Tabla T"
      "length T = min (slider controles_ej) (length ?df)"
      "map fst T = [1..<min (slider controles_ej) (length ?df) + 1]"
      "sorted_wrt ge_nulls_last (map (\<lambda>(i, r). t_magnitud r) T)"
    by simp_all
  have l5: "length T = 5" and i5: "map fst T = [1, 2, 3, 4, 5]"
    using T(2,3) up by (simp_all only: sl len)
  show ?thesis
    by (intro conjI exI[of _ T]) (rule ok m sl len T(1) T(4) l5 i5)+
qed

end
